theory Spec2Isabelle
  imports Complex_Main
begin

section \<open>Signal-card import (scripts/importExcelSignals.py): data model\<close>

text \<open>
  The exceptions a modelled function can leave by. \<open>NameError\<close>, \<open>IndexError\<close>,
  \<open>AttributeError\<close> and \<open>ValueError\<close> are Python's own; \<open>ParsingCardError\<close> is the
  script's card-level failure.
\<close>

datatype error =
    NameError string
  | IndexError
  | AttributeError
  | ValueError string
  | ParsingCardError string

text \<open>
  Modelled from the spec: \<open>dta.Time\<close> (defined in dta/Utils.py, outside this script), a
  time of day with minute resolution. \<open>dta.Time(h, m)\<close> is \<open>Time h m\<close>; times compare by
  hour first and by minute next.
\<close>

datatype Time = Time (hour: nat) (minute: nat)

definition time_le :: "Time \<Rightarrow> Time \<Rightarrow> bool" where
  "time_le a b = (hour a < hour b \<or> (hour a = hour b \<and> minute a \<le> minute b))"

definition time_less :: "Time \<Rightarrow> Time \<Rightarrow> bool" where
  "time_less a b = (hour a < hour b \<or> (hour a = hour b \<and> minute a < minute b))"

text \<open>
  \<open>ExcelSignalTiming\<close>: one operating period. \<open>cycle\<close> is \<open>None\<close> where the script stores
  Python's \<open>None\<close>; durations are real numbers (the rounding of Python floats is not
  modelled).
\<close>

record ExcelSignalTiming =
  cso :: string
  cycle :: "real option"
  offset :: real
  isActuated :: bool
  startTime :: Time
  endTime :: Time
  times :: "real list"

text \<open>\<open>ExcelSignalTiming.__init__\<close>, with \<open>DEFAULT_VALUE = -1\<close> and \<open>DEFAULT_OFFSET = 0\<close>.\<close>

definition ExcelSignalTiming_init :: ExcelSignalTiming where
  "ExcelSignalTiming_init =
     \<lparr>cso = ''-1'', cycle = Some (- 1), offset = 0, isActuated = False,
      startTime = Time 23 59, endTime = Time 23 59, times = []\<rparr>"

text \<open>
  Modelled from the spec: the movement grid \<open>phasingData\<close>, a \<open>dta.MultiArray\<close> (defined
  in dta/MultiArray.py, outside this script): a table keyed by movement-group label and
  interval index. The script uses three things of it, which the record carries:
  \<open>getElementsOfDimention(0)\<close> (the movement-group labels), \<open>getElementsOfDimention(1)\<close>
  (the interval indices, built as \<open>range(1, numIntervals + 1)\<close>) and the lookup
  \<open>phasingData[gMov, timeIndex]\<close>.
\<close>

record MultiArray =
  groupMovements :: "string list"
  timeIndices :: "nat list"
  cellAt :: "string \<Rightarrow> nat \<Rightarrow> string"

text \<open>
  \<open>SignalData\<close>, reduced to the two attributes the modelled methods read. The dictionary
  \<open>signalTiming\<close> is an association list in the dictionary's iteration order.
\<close>

record SignalData =
  phasingData :: MultiArray
  signalTiming :: "(string \<times> ExcelSignalTiming) list"

text \<open>A synthesized phase: the dictionary with keys Movs, green, yellow and allRed.\<close>

record phase =
  Movs :: "string list"
  green :: real
  yellow :: real
  allRed :: real

section \<open>Time-period selection\<close>

text \<open>
  A \<open>for\<close> loop whose body is \<open>if cond: return x\<close>: the first element that satisfies the
  condition, or \<open>None\<close> when the loop runs to its end.
\<close>

primrec for_return :: "('a \<Rightarrow> bool) \<Rightarrow> 'a list \<Rightarrow> 'a option" where
  "for_return cond [] = None"
| "for_return cond (x # xs) = (if cond x then Some x else for_return cond xs)"

definition iterSignalTiming :: "SignalData \<Rightarrow> ExcelSignalTiming list" where
  "iterSignalTiming self = map snd (signalTiming self)"

text \<open>The module-level \<open>selectCSO\<close> (the one every caller uses); \<open>endTime\<close> is not read.\<close>

definition selectCSO :: "SignalData \<Rightarrow> Time \<Rightarrow> Time \<Rightarrow> ExcelSignalTiming option" where
  "selectCSO excelCard startT endT =
     (case for_return (\<lambda>t. time_le (startTime t) startT \<and> time_le startT (endTime t)
                            \<and> time_less (startTime t) (endTime t))
             (iterSignalTiming excelCard) of
        Some t \<Rightarrow> Some t
      | None \<Rightarrow>
         (case for_return (\<lambda>t. startTime t = Time 0 0 \<and> endTime t = Time 0 0)
                 (iterSignalTiming excelCard) of
            Some t \<Rightarrow> Some t
          | None \<Rightarrow>
             for_return (\<lambda>t. startTime t = Time 0 0 \<and> endTime t = Time 23 59)
               (iterSignalTiming excelCard)))"

section \<open>Phase synthesis\<close>

text \<open>The counters \<open>gMatches\<close>, \<open>yMatches\<close>, \<open>rMatches\<close>: how many of the listed movements are
  in the accumulated phase.\<close>

definition countMatches :: "string list \<Rightarrow> string list \<Rightarrow> nat" where
  "countMatches cMovs pMovs = length (filter (\<lambda>m. m \<in> set pMovs) cMovs)"

definition startPhase :: "string list \<Rightarrow> real \<Rightarrow> real \<Rightarrow> phase" where
  "startPhase movs g y = \<lparr>Movs = movs, green = g, yellow = y, allRed = 0\<rparr>"

text \<open>
  The body of the loop of \<open>getPhases\<close> once a phase is in progress: the
  \<open>if\<close>/\<open>elif\<close> chain on the counters. It returns the phase in progress and the list of
  closed phases. The last branch reads the variable \<open>cActiveMovs\<close>, which the method never
  assigns.
\<close>

definition foldInterval ::
  "string list \<Rightarrow> string list \<Rightarrow> string list \<Rightarrow> real \<Rightarrow> phase \<Rightarrow> phase list
     \<Rightarrow> error + (phase \<times> phase list)" where
  "foldInterval cGreenMovs cYellowMovs cRedMovs dur1 pPhase phases =
     (let gMatches = countMatches cGreenMovs (Movs pPhase);
          yMatches = countMatches cYellowMovs (Movs pPhase);
          rMatches = countMatches cRedMovs (Movs pPhase)
      in
      if length cGreenMovs + length cYellowMovs > gMatches + yMatches then
        Inr (startPhase cGreenMovs dur1 0, phases @ [pPhase])
      else if gMatches + yMatches = length (Movs pPhase) then
        (if yMatches > 0 then Inr (pPhase\<lparr>yellow := yellow pPhase + dur1\<rparr>, phases)
         else if rMatches > 0 then Inr (pPhase\<lparr>allRed := allRed pPhase + dur1\<rparr>, phases)
         else Inr (pPhase\<lparr>green := green pPhase + dur1\<rparr>, phases))
      else if gMatches + yMatches < length (Movs pPhase) \<and> gMatches + yMatches > 0 then
        (if yMatches = 0 then Inr (startPhase cGreenMovs dur1 0, phases @ [pPhase])
         else Inr (startPhase cYellowMovs 0 dur1, phases @ [pPhase]))
      else if rMatches = length (Movs pPhase) \<and> cGreenMovs = [] then
        Inr (pPhase\<lparr>allRed := allRed pPhase + dur1\<rparr>, phases)
      else if rMatches = length (Movs pPhase) \<and> cGreenMovs \<noteq> [] then
        Inr (startPhase cGreenMovs dur1 0, phases @ [pPhase])
      else Inl (NameError ''cActiveMovs''))"

definition movsInState :: "MultiArray \<Rightarrow> nat \<Rightarrow> string \<Rightarrow> string list" where
  "movsInState pd timeIndex1 s =
     filter (\<lambda>gMov. cellAt pd gMov timeIndex1 = s) (groupMovements pd)"

text \<open>
  The loop over \<open>izip(timeIndices, timeIntervals)\<close>. \<open>pPhase\<close> is \<open>None\<close> while it is the
  empty dictionary; the interval that seeds it ends with \<open>continue\<close>, before the test on
  the last index. The column read \<open>phasingData[:, timeIndex1]\<close> at the top of the body,
  whose value is not used, is left out.
\<close>

fun getPhases_loop ::
  "MultiArray \<Rightarrow> nat \<Rightarrow> (nat \<times> real) list \<Rightarrow> phase option \<Rightarrow> phase list
     \<Rightarrow> error + phase list" where
  "getPhases_loop pd lastIndex [] pPhase phases = Inr phases"
| "getPhases_loop pd lastIndex ((timeIndex1, dur1) # rest) None phases =
     getPhases_loop pd lastIndex rest
       (Some (startPhase (movsInState pd timeIndex1 ''G'') dur1 0)) phases"
| "getPhases_loop pd lastIndex ((timeIndex1, dur1) # rest) (Some p) phases =
     (case foldInterval (movsInState pd timeIndex1 ''G'') (movsInState pd timeIndex1 ''Y'')
             (movsInState pd timeIndex1 ''R'') dur1 p phases of
        Inl e \<Rightarrow> Inl e
      | Inr (p', phases') \<Rightarrow>
          getPhases_loop pd lastIndex rest (Some p')
            (if timeIndex1 = lastIndex then phases' @ [p'] else phases'))"

text \<open>
  \<open>SignalData.getPhases\<close>. The durations are those of the period \<open>selectCSO\<close> picks;
  \<open>None\<close> has no attribute \<open>times\<close>, and the last element of an empty index list does not
  exist.
\<close>

definition getPhases :: "SignalData \<Rightarrow> Time \<Rightarrow> Time \<Rightarrow> error + phase list" where
  "getPhases self startHour endHour =
     (case selectCSO self startHour endHour of
        None \<Rightarrow> Inl AttributeError
      | Some timing \<Rightarrow>
          (if timeIndices (phasingData self) = [] then Inl IndexError
           else getPhases_loop (phasingData self) (last (timeIndices (phasingData self)))
                  (zip (timeIndices (phasingData self)) (times timing)) None []))"

definition phaseTotal :: "phase \<Rightarrow> real" where
  "phaseTotal p = green p + yellow p + allRed p"

text \<open>
  A grid as \<open>getPhasingData\<close> builds it from its rows: the labels, the indices
  \<open>1 .. N\<close> with \<open>N\<close> the length of the first row, and cell \<open>(label, j)\<close> holding the
  \<open>j\<close>-th entry of the label's row.
\<close>

definition gridOfRows :: "(string \<times> string list) list \<Rightarrow> MultiArray" where
  "gridOfRows rows =
     \<lparr>groupMovements = map fst rows,
      timeIndices = [1 ..< Suc (length (snd (hd rows)))],
      cellAt = (\<lambda>gMov j. case map_of rows gMov of
                            None \<Rightarrow> []
                          | Some r \<Rightarrow> if 1 \<le> j \<and> j \<le> length r then r ! (j - 1) else [])\<rparr>"

definition gearyRows :: "(string \<times> string list) list" where
  "gearyRows =
     [(''MAIN EB'', [''G'', ''G'', ''Y'', ''R'', ''R'', ''R'', ''R'', ''R'']),
      (''CROSS NB'', [''R'', ''R'', ''R'', ''R'', ''G'', ''G'', ''Y'', ''R''])]"

definition gearyCard :: SignalData where
  "gearyCard =
     \<lparr>phasingData = gridOfRows gearyRows,
      signalTiming =
        [(''111'', ExcelSignalTiming_init
            \<lparr>cso := ''111'', cycle := Some 90, startTime := Time 0 0, endTime := Time 0 0,
             times := [47, 6, 7/2, 1/2, 8, 20, 7/2, 3/2]\<rparr>)]\<rparr>"

text \<open>Cards for the synthesis: one with a single interval, one with a cell that is none of
  G, Y and R.\<close>

definition oneIntervalCard :: SignalData where
  "oneIntervalCard =
     \<lparr>phasingData = gridOfRows [(''MAIN EB'', [''G'']), (''CROSS NB'', [''R''])],
      signalTiming =
        [(''111'', ExcelSignalTiming_init
            \<lparr>cso := ''111'', cycle := Some 30, startTime := Time 0 0, endTime := Time 0 0,
             times := [30]\<rparr>)]\<rparr>"

definition strayCellCard :: SignalData where
  "strayCellCard =
     \<lparr>phasingData = gridOfRows [(''MAIN EB'', [''G'', ''X'']), (''CROSS NB'', [''R'', ''R''])],
      signalTiming =
        [(''111'', ExcelSignalTiming_init
            \<lparr>cso := ''111'', cycle := Some 60, startTime := Time 0 0, endTime := Time 0 0,
             times := [40, 20]\<rparr>)]\<rparr>"

text \<open>
  A well-formed operating period for a grid: the interval indices are \<open>1 .. N\<close> and every
  cell of every movement row is one of G, Y and R.
\<close>

definition wellFormedGrid :: "MultiArray \<Rightarrow> nat \<Rightarrow> bool" where
  "wellFormedGrid pd N =
     (timeIndices pd = [1 ..< Suc N] \<and>
      (\<forall>gMov\<in>set (groupMovements pd). \<forall>j\<in>set (timeIndices pd).
          cellAt pd gMov j = ''G'' \<or> cellAt pd gMov j = ''Y'' \<or> cellAt pd gMov j = ''R''))"

definition phasesTotal :: "phase list \<Rightarrow> real" where
  "phasesTotal phases = sum_list (map phaseTotal phases)"

text \<open>The movements of the phase in progress are rows of the grid, each counted once.\<close>

definition movsOfGrid :: "MultiArray \<Rightarrow> phase \<Rightarrow> bool" where
  "movsOfGrid pd p = (countMatches (groupMovements pd) (Movs p) = length (Movs p))"

text \<open>The condition of the first loop of \<open>selectCSO\<close>, as the contract words it.\<close>

definition inOperation :: "Time \<Rightarrow> ExcelSignalTiming \<Rightarrow> bool" where
  "inOperation q t =
     (time_le (startTime t) q \<and> time_le q (endTime t) \<and> time_less (startTime t) (endTime t))"

definition period :: "string \<Rightarrow> Time \<Rightarrow> Time \<Rightarrow> string \<times> ExcelSignalTiming" where
  "period c s e = (c, ExcelSignalTiming_init\<lparr>cso := c, startTime := s, endTime := e\<rparr>)"

definition cardOfPeriods :: "(string \<times> ExcelSignalTiming) list \<Rightarrow> SignalData" where
  "cardOfPeriods ps = \<lparr>phasingData = gridOfRows gearyRows, signalTiming = ps\<rparr>"

section \<open>Python strings\<close>

text \<open>\<open>str.strip()\<close> removes the ASCII whitespace characters at both ends.\<close>

definition isSpace :: "char \<Rightarrow> bool" where
  "isSpace c = (c \<in> set [CHR 0x20, CHR 0x09, CHR 0x0A, CHR 0x0B, CHR 0x0C, CHR 0x0D])"

definition py_strip :: "string \<Rightarrow> string" where
  "py_strip s = rev (dropWhile isSpace (rev (dropWhile isSpace s)))"

text \<open>\<open>str.upper()\<close> on a byte string: the letters a to z move to A to Z.\<close>

definition upperChar :: "char \<Rightarrow> char" where
  "upperChar c =
     (case map_of (zip ''abcdefghijklmnopqrstuvwxyz'' ''ABCDEFGHIJKLMNOPQRSTUVWXYZ'') c of
        Some u \<Rightarrow> u
      | None \<Rightarrow> c)"

definition py_upper :: "string \<Rightarrow> string" where
  "py_upper s = map upperChar s"

primrec py_startswith :: "string \<Rightarrow> string \<Rightarrow> bool" where
  "py_startswith s [] = True"
| "py_startswith s (c # cs) = (case s of [] \<Rightarrow> False | d # ds \<Rightarrow> c = d \<and> py_startswith ds cs)"

definition py_endswith :: "string \<Rightarrow> string \<Rightarrow> bool" where
  "py_endswith s suffix = py_startswith (rev s) (rev suffix)"

text \<open>\<open>sub in s\<close>: \<open>sub\<close> occurs in \<open>s\<close> as a contiguous piece.\<close>

fun py_in :: "string \<Rightarrow> string \<Rightarrow> bool" where
  "py_in sub [] = (sub = [])"
| "py_in sub (c # cs) = (py_startswith (c # cs) sub \<or> py_in sub cs)"

section \<open>Operating times: which period a timing row belongs to\<close>

text \<open>
  The part of \<open>getOperationTimes\<close> that turns the cells of one row (the list \<open>cso\<close> of
  the source, here \<open>csoCells\<close>, already converted to strings) into the key of the period whose times the row sets. \<open>keys\<close> are
  the keys of \<open>signalData.signalTiming\<close> in iteration order, \<open>timename\<close> is the cell eleven
  columns left of the CYCLE column. \<open>None\<close> is a row that is skipped.

  First loop: every key whose first character equals \<open>strCsoSub\<close> overwrites \<open>strCso\<close>.
\<close>

definition matchFirstChar :: "string list \<Rightarrow> string \<Rightarrow> bool \<times> string \<Rightarrow> bool \<times> string" where
  "matchFirstChar keys strCsoSub st =
     foldl (\<lambda>(CSOMatch, strCso) signalTimes.
              if take 1 signalTimes = strCsoSub then (True, signalTimes) else (CSOMatch, strCso))
           st keys"

text \<open>Second loop, for FREE and dashed codes: both branches of its \<open>if\<close> assign the same.\<close>

definition matchAllOtherTimes :: "string list \<Rightarrow> bool \<times> string \<Rightarrow> bool \<times> string" where
  "matchAllOtherTimes keys st =
     foldl (\<lambda>(CSOMatch, strCso) signalTimes.
              if take 1 signalTimes = ''1'' then (True, signalTimes) else (True, signalTimes))
           st keys"

definition resolveCso :: "string list \<Rightarrow> string list \<Rightarrow> string \<Rightarrow> error + string option" where
  "resolveCso keys csoCells timename =
     (let csosub = take 1 csoCells; strCso0 = concat csoCells; strCsoSub = concat csosub in
      if strCso0 = [] then Inr None
      else
        (case matchFirstChar keys strCsoSub (False, strCso0) of
           (True, strCso) \<Rightarrow> Inr (Some strCso)
         | (False, strCso) \<Rightarrow>
             (case strCsoSub of
                [] \<Rightarrow> Inl IndexError
              | c # _ \<Rightarrow>
                 if c = CHR ''F'' \<or> c = CHR ''-'' then
                   (case matchAllOtherTimes keys (False, strCso) of
                      (True, strCso') \<Rightarrow> Inr (Some strCso')
                    | (False, _) \<Rightarrow> Inr None)
                 else if take 1 (py_strip timename) = ''P'' then Inr None
                 else Inr None)))"

section \<open>Cycle and offset of a timing row\<close>

text \<open>
  The part of \<open>getSignalIntervalData\<close> from \<open>signalTiming.cso = strCso\<close> to the end of the
  \<open>try\<close> block. Python's \<open>float\<close> on a string is the parameter \<open>pyfloat\<close> (\<open>None\<close> where
  \<open>float\<close> raises ValueError). Only the last branch is inside \<open>try\<close>, where a ValueError
  becomes a ParsingCardError.
\<close>

definition setCycleOffset ::
  "(string \<Rightarrow> real option) \<Rightarrow> string \<Rightarrow> string \<Rightarrow> string \<Rightarrow> error + ExcelSignalTiming" where
  "setCycleOffset pyfloat strCso strCycle strOffset =
     (let signalTiming0 = ExcelSignalTiming_init\<lparr>cso := strCso\<rparr> in
      if py_endswith strCso ''-'' \<and> length strCso = 3 \<and> strCycle \<noteq> ''--'' then
        (if py_endswith strCso ''--'' then
           Inr (signalTiming0\<lparr>offset := 0, cycle := Some 0, isActuated := True\<rparr>)
         else
           (case pyfloat strCycle of
              None \<Rightarrow> Inl (ValueError strCycle)
            | Some c \<Rightarrow> Inr (signalTiming0\<lparr>offset := 0, cycle := Some c\<rparr>)))
      else if py_endswith strCso ''--'' \<and> length strCso = 4 \<and> strCycle = ''--'' then
        (case pyfloat strCycle of
           None \<Rightarrow> Inl (ValueError strCycle)
         | Some c \<Rightarrow> Inr (signalTiming0\<lparr>offset := 0, cycle := Some c\<rparr>))
      else if strCso = ''FREE'' \<or> strCso = ''free'' then
        Inr (signalTiming0\<lparr>isActuated := True\<rparr>)
      else
        (case (if py_in ''-'' strCycle then Some (signalTiming0\<lparr>cycle := None, isActuated := True\<rparr>)
               else (case pyfloat strCycle of
                       None \<Rightarrow> None
                     | Some c \<Rightarrow> Some (signalTiming0\<lparr>cycle := Some c\<rparr>))) of
           None \<Rightarrow> Inl (ParsingCardError ''I could not parse the cso,cycle,offset'')
         | Some t \<Rightarrow>
             (if \<not> py_in ''-'' strOffset then
                (case pyfloat strOffset of
                   None \<Rightarrow> Inl (ParsingCardError ''I could not parse the cso,cycle,offset'')
                 | Some off \<Rightarrow> Inr (t\<lparr>offset := off\<rparr>))
              else Inr (t\<lparr>offset := 0\<rparr>))))"

text \<open>
  A reading of plain decimal literals (digits, then optionally a point and digits), to
  stand for \<open>float\<close> in examples. It is not Python's \<open>float\<close>, which also reads a sign,
  surrounding whitespace, a bare fraction, an exponent, \<open>nan\<close> and \<open>inf\<close>; the two agree on the
  strings of the examples.
\<close>

definition digitValue :: "char \<Rightarrow> nat option" where
  "digitValue c =
     (let n = (of_char c :: nat) in if 48 \<le> n \<and> n \<le> 57 then Some (n - 48) else None)"

fun digitsValue :: "string \<Rightarrow> nat \<Rightarrow> nat option" where
  "digitsValue [] acc = Some acc"
| "digitsValue (c # cs) acc =
     (case digitValue c of None \<Rightarrow> None | Some d \<Rightarrow> digitsValue cs (10 * acc + d))"

definition decimalLiteral :: "string \<Rightarrow> real option" where
  "decimalLiteral s =
     (let ip = takeWhile (\<lambda>c. c \<noteq> CHR ''.'') s; rest = dropWhile (\<lambda>c. c \<noteq> CHR ''.'') s in
      if ip = [] then None
      else
        (case digitsValue ip 0 of
           None \<Rightarrow> None
         | Some n \<Rightarrow>
             (case rest of
                [] \<Rightarrow> Some (real n)
              | _ # fp \<Rightarrow>
                  (case digitsValue fp 0 of
                     None \<Rightarrow> None
                   | Some m \<Rightarrow> Some (real n + real m / 10 ^ length fp)))))"

section \<open>Weekday plans and the times of a row\<close>

text \<open>
  The sheet is the spreadsheet reader's \<open>cell_value\<close>, composed with \<open>str\<close>: the text of
  the cell at a row and a column.
\<close>

type_synonym sheet = "int \<Rightarrow> int \<Rightarrow> string"

definition checkForWeekdayPlan :: "sheet \<Rightarrow> int \<Rightarrow> int \<Rightarrow> bool" where
  "checkForWeekdayPlan sh row column =
     (let ThursValue = py_strip (sh row (column - 3));
          FriValue = py_strip (sh row (column - 2))
      in if ThursValue = ''X'' \<and> FriValue = ''X'' then True
         else if ThursValue = ''x'' \<and> FriValue = ''x'' then True
         else False)"

text \<open>The local flags of \<open>setTimes\<close>.\<close>

record timesFlags =
  hasAllOtherTimes :: bool
  gotStartTime :: bool
  gotStartTime2 :: bool

text \<open>
  The loop of \<open>setTimes\<close> over the columns left of the phase data, on the period of the
  row. What a non-blank cell of a weekday row does (the numeric and textual time formats)
  is the parameter \<open>weekdayCell\<close>; the branch for a row that is no weekday plan is written
  out.
\<close>

fun setTimes_loop ::
  "sheet \<Rightarrow> (int \<Rightarrow> int \<Rightarrow> ExcelSignalTiming \<times> timesFlags \<Rightarrow> error + ExcelSignalTiming \<times> timesFlags)
     \<Rightarrow> int \<Rightarrow> int \<Rightarrow> int list \<Rightarrow> ExcelSignalTiming \<times> timesFlags
     \<Rightarrow> error + ExcelSignalTiming \<times> timesFlags" where
  "setTimes_loop sh weekdayCell row colCycle [] st = Inr st"
| "setTimes_loop sh weekdayCell row colCycle (curColumn # cols) (t, fl) =
     (if py_strip (sh row curColumn) \<noteq> [] then
        (if \<not> checkForWeekdayPlan sh row colCycle then
           setTimes_loop sh weekdayCell row colCycle cols
             (t\<lparr>startTime := Time 23 59, endTime := Time 23 59\<rparr>, fl\<lparr>gotStartTime := True\<rparr>)
         else
           (case weekdayCell row curColumn (t, fl) of
              Inl e \<Rightarrow> Inl e
            | Inr st' \<Rightarrow> setTimes_loop sh weekdayCell row colCycle cols st'))
      else setTimes_loop sh weekdayCell row colCycle cols (t, fl))"

definition setTimes ::
  "sheet \<Rightarrow> (int \<Rightarrow> int \<Rightarrow> ExcelSignalTiming \<times> timesFlags \<Rightarrow> error + ExcelSignalTiming \<times> timesFlags)
     \<Rightarrow> int \<Rightarrow> int \<Rightarrow> int \<Rightarrow> int \<Rightarrow> ExcelSignalTiming
     \<Rightarrow> error + ExcelSignalTiming \<times> timesFlags" where
  "setTimes sh weekdayCell row colCycle topLeftCol colPhaseData t =
     setTimes_loop sh weekdayCell row colCycle [topLeftCol .. colPhaseData - 1]
       (t, \<lparr>hasAllOtherTimes = False, gotStartTime = False, gotStartTime2 = False\<rparr>)"

text \<open>A row whose Thursday cell (column 0) holds X and whose Friday cell (column 1) holds x.\<close>

definition mixedCaseSheet :: sheet where
  "mixedCaseSheet row col = (if col = 0 then ''X'' else if col = 1 then ''x'' else [])"

section \<open>Movement classification\<close>

definition TURN_LEFT :: "string list" where "TURN_LEFT = [''LT'', ''LT2'']"
definition TURN_THRU :: "string list" where "TURN_THRU = [''TH'', ''TH2'']"
definition TURN_RIGHT :: "string list" where "TURN_RIGHT = [''RT'', ''RT2'']"

definition leftTurnIndicators :: "string list" where
  "leftTurnIndicators =
     [''LT'' @ [CHR 0x27] @ ''S'', ''-L'', ''WB-L'', ''EB-L'', ''SB-L'', ''NB-L'', ''LEFT TURN'',
      '' LT'', ''NBLT'', ''SBLT'', ''WBLT'', ''EBLT'', ''(NBLT)'', ''(SBLT)'', ''(WBLT)'',
      ''(EBLT)'']"

definition rightTurnIndicators :: "string list" where
  "rightTurnIndicators = [''RIGHT TURN'', ''BRT'', '' RT'']"

definition thruTurnIndicators :: "string list" where
  "thruTurnIndicators = ['' THRU'', '' THROUGH'', ''(THRU)'']"

text \<open>The dictionary \<open>indicators\<close> of \<open>groupMovementToTurnType\<close>, in the order it is written.\<close>

definition turnIndicators :: "(string list \<times> string list) list" where
  "turnIndicators =
     [(TURN_LEFT, leftTurnIndicators), (TURN_THRU, thruTurnIndicators),
      (TURN_RIGHT, rightTurnIndicators)]"

text \<open>
  The inner loop over the indicators of one turn type. The state is \<open>result\<close> and
  \<open>thruadded\<close>; \<open>movadded\<close> is assigned and never read. The test that adds the right turns
  to a through movement stands inside this loop, after the test of the indicator.
\<close>

fun turnIndicatorLoop ::
  "string \<Rightarrow> bool \<Rightarrow> string list \<Rightarrow> string list \<Rightarrow> string list \<times> bool \<Rightarrow> string list \<times> bool"
  where
  "turnIndicatorLoop gMovName addRightToThru dir [] st = st"
| "turnIndicatorLoop gMovName addRightToThru dir (indicator # rest) (result, thruadded) =
     (let result1 = (if py_in indicator gMovName then result @ dir else result);
          thruadded1 = (if py_in indicator gMovName \<and> dir = TURN_THRU then True else thruadded);
          result2 = (if dir = TURN_RIGHT \<and> thruadded1 \<and> addRightToThru then result1 @ dir
                     else result1)
      in turnIndicatorLoop gMovName addRightToThru dir rest (result2, thruadded1))"

fun turnItemsLoop ::
  "string \<Rightarrow> bool \<Rightarrow> (string list \<times> string list) list \<Rightarrow> string list \<times> bool
     \<Rightarrow> string list \<times> bool" where
  "turnItemsLoop gMovName addRightToThru [] st = st"
| "turnItemsLoop gMovName addRightToThru ((dir, dirIndicators) # items) st =
     turnItemsLoop gMovName addRightToThru items
       (turnIndicatorLoop gMovName addRightToThru dir dirIndicators st)"

text \<open>\<open>groupMovementToTurnType\<close>; \<open>items\<close> is \<open>indicators.items()\<close>, the entries of the dictionary
  in the order the interpreter iterates them.\<close>

definition groupMovementToTurnType ::
  "(string list \<times> string list) list \<Rightarrow> string \<Rightarrow> bool \<Rightarrow> string list" where
  "groupMovementToTurnType items gMovName addRightToThru =
     fst (turnItemsLoop gMovName addRightToThru items ([], False))"

definition wbIndicators :: "string list" where
  "wbIndicators =
     [''WB-'', ''WB,'', '',WB'', ''WB/'', ''/WB'', ''WB&'', ''&WB'', '' WB'', ''WB '', ''W/B'',
      ''(WB'', ''WB)'', ''(WB)'', ''(WESTBOUND)'', ''WESTBOUND'', ''WEST '']"

definition ebIndicators :: "string list" where
  "ebIndicators =
     [''EB-'', ''EB,'', '',EB'', ''EB/'', ''/EB'', ''EB&'', ''&EB'', '' EB'', ''EB '', ''E/B'',
      ''(EB'', ''(EB)'', ''EB)'', ''(EASTBOUND)'', ''EASTBOUND'', ''EAST '']"

definition nbIndicators :: "string list" where
  "nbIndicators =
     [''NB-'', ''NB,'', '',NB'', ''NB/'', ''/NB'', ''NB&'', ''&NB'', '' NB'', ''NB '', ''N/B'',
      ''(NB'', ''NB)'', ''(NORTHBOUND)'', ''NORTHBOUND'', ''NORTH '']"

definition sbIndicators :: "string list" where
  "sbIndicators =
     [''SB-'', ''SB,'', '',SB'', ''SB/'', ''/SB'', ''SB&'', ''&SB'', '' SB'', ''SB '', ''S/B'',
      ''(SB'', ''SB)'', ''(SOUTHBOUND)'', ''SOUTHBOUND'', ''SOUTH '']"

definition directionIndicators :: "(string \<times> string list) list" where
  "directionIndicators =
     [(''WB'', wbIndicators), (''EB'', ebIndicators), (''NB'', nbIndicators),
      (''SB'', sbIndicators)]"

text \<open>The test of one indicator in \<open>getDirections\<close>.\<close>

definition indicates :: "string \<Rightarrow> string \<Rightarrow> bool" where
  "indicates gMovName indicator =
     (py_in indicator gMovName \<and> gMovName \<noteq> ''SOUTH VAN NESS'' \<and> gMovName \<noteq> ''WEST PORTAL''
      \<and> gMovName \<noteq> ''NORTH POINT'' \<and> gMovName \<noteq> ''I-80 E OFF-RAMP''
      \<and> gMovName \<noteq> ''HWY 101 SOUTHBOUND RAMP'')"

text \<open>The inner loop: the first indicator found appends the direction and breaks.\<close>

primrec directionLoop :: "string \<Rightarrow> string \<Rightarrow> string list \<Rightarrow> string list \<Rightarrow> string list" where
  "directionLoop gMovName dir [] result = result"
| "directionLoop gMovName dir (indicator # rest) result =
     (if indicates gMovName indicator then result @ [dir]
      else directionLoop gMovName dir rest result)"

fun directionItemsLoop ::
  "string \<Rightarrow> (string \<times> string list) list \<Rightarrow> string list \<Rightarrow> string list" where
  "directionItemsLoop gMovName [] result = result"
| "directionItemsLoop gMovName ((dir, dirIndicators) # items) result =
     directionItemsLoop gMovName items (directionLoop gMovName dir dirIndicators result)"

definition getDirections :: "(string \<times> string list) list \<Rightarrow> string \<Rightarrow> string list" where
  "getDirections items gMovName = directionItemsLoop gMovName items []"

text \<open>An iteration order of a collection: its elements, each once, in some order.\<close>

definition iterationOrder :: "'a list \<Rightarrow> 'a list \<Rightarrow> bool" where
  "iterationOrder items dict = (distinct items \<and> set items = set dict)"

text \<open>
  \<open>indicators.items()\<close> in \<open>groupMovementToTurnType\<close>: the entries in the order in which
  CPython 2.7 iterates this dictionary. The three tuple keys hash to the same slot of the
  table of eight, and probing places them THRU, LEFT, RIGHT, on 64-bit and on 32-bit builds.
\<close>

definition turnIndicatorItems :: "(string list \<times> string list) list" where
  "turnIndicatorItems =
     [(TURN_THRU, thruTurnIndicators), (TURN_LEFT, leftTurnIndicators),
      (TURN_RIGHT, rightTurnIndicators)]"

text \<open>\<open>indicators.items()\<close> in \<open>getDirections\<close>, likewise: SB, NB, WB, EB.\<close>

definition directionIndicatorItems :: "(string \<times> string list) list" where
  "directionIndicatorItems =
     [(''SB'', sbIndicators), (''NB'', nbIndicators), (''WB'', wbIndicators),
      (''EB'', ebIndicators)]"




section \<open>Command line\<close>

text \<open>
  The usage message \<open>USAGE\<close>, character for character: a raw string, so its backslashes
  are literal, which starts with two line feeds and ends with a line feed and a space.
\<close>

definition USAGE :: string where
  "USAGE = concat
     [[CHR 0x0A], [CHR 0x0A],
      '' python importExcelSignals.py dynameq_net_dir dynameq_net_prefix excel_signals_dir startTime endTime output_dynameq_dir output_dynameq_net_prefix [overrideturntypes.csv]'',
      [CHR 0x0A], '' '', [CHR 0x0A], '' e.g.'', [CHR 0x0A], '' '', [CHR 0x0A],
      '' python importExcelSignals.py . sf Y:'' @ [CHR 0x5C] @ ''dta'' @ [CHR 0x5C] @ ''SanFrancisco'' @ [CHR 0x5C] @ ''2010'' @ [CHR 0x5C] @ ''excelSignalCards 15:30 18:30 Y:'' @ [CHR 0x5C] @ ''dta'' @ [CHR 0x5C] @ ''SanFrancisco'' @ [CHR 0x5C] @ ''2010'' @ [CHR 0x5C] @ ''network'' @ [CHR 0x5C] @ ''movement_override.csv'',
      [CHR 0x0A], '' '', [CHR 0x0A],
      '' This script reads all the excel signal cards in the excel_signal_cards dir and converts them to the dynameq network'',
      [CHR 0x0A], '' specified with the first two arguments.'', [CHR 0x0A], '' '', [CHR 0x0A],
      '' Only signals that are active in the given time period are converted.'',
      [CHR 0x0A], '' '', [CHR 0x0A],
      '' The script writes a new dynameq network that includes the signals to output_dynameq_dir using the prefix output_dynameq_net_prefix'',
      [CHR 0x0A], '' '']"

text \<open>What the script does at its first statement: the lines printed, and the exit code when
  the process exits there.\<close>

record startup =
  printed :: "string list"
  exitCode :: "int option"

text \<open>\<open>sys.argv\<close> holds the script's name first and the positional arguments after it.\<close>

definition checkArguments :: "string list \<Rightarrow> startup" where
  "checkArguments argv =
     (if length argv < 6 then \<lparr>printed = [USAGE], exitCode = Some 2\<rparr>
      else \<lparr>printed = [], exitCode = None\<rparr>)"

definition runScript :: "string \<Rightarrow> string list \<Rightarrow> startup" where
  "runScript scriptName positional = checkArguments (scriptName # positional)"

section \<open>Filling the blanks of a movement row\<close>

text \<open>
  \<open>fillPhaseInfo\<close>. The forward pass runs over \<open>range(1, len(phaseInfo))\<close>, the backward pass
  over \<open>range(len(phaseInfo) - 1, -1, -1)\<close>. In the backward pass the test
  \<open>phaseInfo[i] == ""\<close> comes first, and only when it holds is \<open>phaseInfo[i + 1]\<close> read, which
  does not exist for the last index.
\<close>

primrec fillForward :: "nat list \<Rightarrow> string list \<Rightarrow> string list" where
  "fillForward [] phaseInfo = phaseInfo"
| "fillForward (i # rest) phaseInfo =
     fillForward rest
       (if phaseInfo ! i = [] \<and> phaseInfo ! (i - 1) \<noteq> [] then phaseInfo[i := phaseInfo ! (i - 1)]
        else phaseInfo)"

primrec fillBackward :: "nat list \<Rightarrow> string list \<Rightarrow> error + string list" where
  "fillBackward [] phaseInfo = Inr phaseInfo"
| "fillBackward (i # rest) phaseInfo =
     (if phaseInfo ! i = [] then
        (if i + 1 < length phaseInfo then
           fillBackward rest
             (if phaseInfo ! (i + 1) \<noteq> [] then phaseInfo[i := phaseInfo ! (i + 1)]
              else phaseInfo)
         else Inl IndexError)
      else fillBackward rest phaseInfo)"

definition fillPhaseInfo :: "string list \<Rightarrow> error + string list" where
  "fillPhaseInfo phaseInfo =
     fillBackward (rev [0 ..< length phaseInfo]) (fillForward [1 ..< length phaseInfo] phaseInfo)"

text \<open>The part of \<open>getPhasingData\<close> that reads one row and decides whether it is kept.\<close>

definition intervalStateGreen :: "string list" where
  "intervalStateGreen =
     [''G'', ''G+G'', ''G*'', ''G G'', ''FY'', ''F'', ''G+F'', ''U'', ''T'', ''G + G'', ''G + F'',
      ''ON'']"

definition intervalStateYellow :: "string list" where
  "intervalStateYellow = [''Y'', ''SY'']"

definition intervalStateRed :: "string list" where
  "intervalStateRed = [''R'', ''RH'', ''OFF'', ''FR'']"

text \<open>The loop over the cells of the row; \<open>None\<close> is the \<open>break\<close> on a state that is not valid.\<close>

fun readIntervalStates :: "string list \<Rightarrow> string list \<Rightarrow> string list option" where
  "readIntervalStates [] singleMovementData = Some singleMovementData"
| "readIntervalStates (cellText # rest) singleMovementData =
     (let intervalState = py_strip (py_upper cellText) in
      if intervalState = [] then readIntervalStates rest (singleMovementData @ [[]])
      else if intervalState \<in> set intervalStateGreen then
        readIntervalStates rest (singleMovementData @ [''G''])
      else if intervalState \<in> set intervalStateYellow then
        readIntervalStates rest (singleMovementData @ [''Y''])
      else if intervalState \<in> set intervalStateRed \<or> ''-R-'' \<in> set intervalStateRed then
        readIntervalStates rest (singleMovementData @ [''R''])
      else None)"

definition excludedMovement :: "string \<Rightarrow> bool" where
  "excludedMovement groupMovement =
     (groupMovement = [] \<or> py_in ''PEDS '' groupMovement \<or> py_in ''PED '' groupMovement
      \<or> py_in ''XING '' groupMovement \<or> py_in ''MUNI '' groupMovement
      \<or> py_in ''TRAIN '' groupMovement \<or> py_in ''FLASHING '' groupMovement
      \<or> groupMovement = ''MUNI'' \<or> py_in '' MUNI'' groupMovement
      \<or> py_in ''RAIL'' groupMovement)"

text \<open>One row: its label (upper case) and the texts of its cells. \<open>None\<close> is a row that is
  skipped; a row that is kept is appended to \<open>phasingData\<close> and later given to
  \<open>fillPhaseInfo\<close>.\<close>

definition readMovementRow :: "string \<Rightarrow> string list \<Rightarrow> string list option" where
  "readMovementRow groupMovement cellTexts =
     (if excludedMovement groupMovement then None
      else
        (case readIntervalStates cellTexts [] of
           None \<Rightarrow> None
         | Some singleMovementData \<Rightarrow>
             if singleMovementData = replicate (length singleMovementData) [] then None
             else Some singleMovementData))"

section \<open>The unused method of the same name\<close>

text \<open>
  \<open>SignalData.selectCSO\<close>, the method. Nothing calls it: \<open>getPhases\<close> and
  \<open>convertSignalToDynameq\<close> call the module-level function. It returns the key, does not
  ask for an end after the start, and tries the full-day period before the midnight one.
\<close>

definition SignalData_selectCSO :: "SignalData \<Rightarrow> Time \<Rightarrow> Time \<Rightarrow> string option" where
  "SignalData_selectCSO self startT endT =
     (case for_return (\<lambda>(c, t). time_le (startTime t) startT \<and> time_le startT (endTime t))
             (signalTiming self) of
        Some (c, t) \<Rightarrow> Some c
      | None \<Rightarrow>
         (case for_return (\<lambda>(c, t). startTime t = Time 0 0 \<and> endTime t = Time 23 59)
                 (signalTiming self) of
            Some (c, t) \<Rightarrow> Some c
          | None \<Rightarrow>
             map_option fst
               (for_return (\<lambda>(c, t). startTime t = Time 0 0 \<and> endTime t = Time 0 0)
                  (signalTiming self))))"

section \<open>Example cards and rows\<close>

definition weekdayCard :: SignalData where
  "weekdayCard =
     cardOfPeriods [period ''1'' (Time 23 59) (Time 23 59), period ''2'' (Time 7 0) (Time 19 0),
                    period ''3'' (Time 15 0) (Time 19 0)]"

definition otherTimesCard :: SignalData where
  "otherTimesCard =
     cardOfPeriods [period ''2'' (Time 6 0) (Time 9 0), period ''1'' (Time 0 0) (Time 0 0)]"

definition fullDayCard :: SignalData where
  "fullDayCard =
     cardOfPeriods [period ''2'' (Time 6 0) (Time 9 0), period ''1'' (Time 0 0) (Time 23 59)]"

definition morningOnlyCard :: SignalData where
  "morningOnlyCard =
     cardOfPeriods [period ''2'' (Time 6 0) (Time 9 0), period ''1'' (Time 23 59) (Time 23 59)]"

definition bothFallbacksCard :: SignalData where
  "bothFallbacksCard =
     cardOfPeriods [period ''1'' (Time 0 0) (Time 0 0), period ''2'' (Time 0 0) (Time 23 59)]"

definition sampleRowTexts :: "string list" where
  "sampleRowTexts = [[], ''g'', [], ''Y '', ''R'', [], []]"

definition sampleRow :: "string list" where
  "sampleRow = [[], ''G'', [], ''Y'', ''R'', [], []]"

definition keepState ::
  "int \<Rightarrow> int \<Rightarrow> ExcelSignalTiming \<times> timesFlags \<Rightarrow> error + ExcelSignalTiming \<times> timesFlags" where
  "keepState row col st = Inr st"

definition dayPeriod :: ExcelSignalTiming where
  "dayPeriod = ExcelSignalTiming_init\<lparr>startTime := Time 7 0, endTime := Time 19 0\<rparr>"

definition rightFirstOrder :: "(string list \<times> string list) list" where
  "rightFirstOrder =
     [(TURN_RIGHT, rightTurnIndicators), (TURN_THRU, thruTurnIndicators),
      (TURN_LEFT, leftTurnIndicators)]"

definition fiveArguments :: "string list" where
  "fiveArguments = [''net'', ''sf'', ''cards'', ''15:30'', ''18:30'']"

section \<open>Results: phase synthesis\<close>

lemmas getPhases_eval =
  getPhases_def selectCSO_def iterSignalTiming_def gridOfRows_def ExcelSignalTiming_init_def
  time_le_def time_less_def movsInState_def foldInterval_def countMatches_def startPhase_def
  upt_rec

text \<open>
  C1. For the grid with rows MAIN EB = [G,G,Y,R,R,R,R,R] and CROSS NB = [R,R,R,R,G,G,Y,R]
  and the interval durations [47, 6, 3.5, 0.5, 8, 20, 3.5, 1.5], \<open>getPhases\<close> returns
  exactly two phases: MAIN EB with green 53, yellow 3.5 and all-red 0.5, then CROSS NB with
  green 28, yellow 3.5 and all-red 1.5.
\<close>

theorem getPhases_worked_example:
  "getPhases gearyCard (Time 15 30) (Time 18 30) =
     Inr [\<lparr>Movs = [''MAIN EB''], green = 53, yellow = 7/2, allRed = 1/2\<rparr>,
          \<lparr>Movs = [''CROSS NB''], green = 28, yellow = 7/2, allRed = 3/2\<rparr>]"
  by (simp add: getPhases_eval gearyCard_def gearyRows_def)

subsection \<open>Durations are conserved from two intervals on\<close>

lemma count_partition:
  "\<forall>m\<in>set xs. f m = ''G'' \<or> f m = ''Y'' \<or> f m = ''R'' \<Longrightarrow>
   countMatches (filter (\<lambda>m. f m = ''G'') xs) M + countMatches (filter (\<lambda>m. f m = ''Y'') xs) M
     + countMatches (filter (\<lambda>m. f m = ''R'') xs) M = countMatches xs M"
  by (induction xs) (auto simp: countMatches_def)

lemma count_filter_self: "countMatches xs (filter Q xs) = length (filter Q xs)"
  by (simp add: countMatches_def cong: filter_cong)

lemma movsOfGrid_start: "movsOfGrid pd (startPhase (movsInState pd j s) g y)"
  by (simp add: movsOfGrid_def startPhase_def movsInState_def count_filter_self)

lemma phaseTotal_start: "phaseTotal (startPhase movs g y) = g + y"
  by (simp add: phaseTotal_def startPhase_def)

text \<open>
  On an interval whose cells are all G, Y or R, one of the conditions before the last
  \<open>else\<close> applies: the step returns, keeps the invariant and adds the interval's duration
  to the running total.
\<close>

lemma foldInterval_total:
  assumes cells: "\<forall>gMov\<in>set (groupMovements pd).
          cellAt pd gMov j = ''G'' \<or> cellAt pd gMov j = ''Y'' \<or> cellAt pd gMov j = ''R''"
    and inv: "movsOfGrid pd p"
  shows "\<exists>p' phases'. foldInterval (movsInState pd j ''G'') (movsInState pd j ''Y'')
             (movsInState pd j ''R'') d p phases = Inr (p', phases')
           \<and> movsOfGrid pd p'
           \<and> phasesTotal phases' + phaseTotal p' = phasesTotal phases + phaseTotal p + d"
proof -
  let ?g = "countMatches (movsInState pd j ''G'') (Movs p)"
  let ?y = "countMatches (movsInState pd j ''Y'') (Movs p)"
  let ?r = "countMatches (movsInState pd j ''R'') (Movs p)"
  have sum: "?g + ?y + ?r = length (Movs p)"
    using count_partition[OF cells, of "Movs p"] inv
    by (simp add: movsInState_def movsOfGrid_def)
  have upd: "movsOfGrid pd (p\<lparr>yellow := a\<rparr>)" "movsOfGrid pd (p\<lparr>allRed := a\<rparr>)"
       "movsOfGrid pd (p\<lparr>green := a\<rparr>)" for a
    using inv by (simp_all add: movsOfGrid_def)
  have tot: "phaseTotal (p\<lparr>yellow := yellow p + d\<rparr>) = phaseTotal p + d"
       "phaseTotal (p\<lparr>allRed := allRed p + d\<rparr>) = phaseTotal p + d"
       "phaseTotal (p\<lparr>green := green p + d\<rparr>) = phaseTotal p + d"
    by (simp_all add: phaseTotal_def)
  have app: "phasesTotal (phases @ [p]) = phasesTotal phases + phaseTotal p"
    by (simp add: phasesTotal_def)
  show ?thesis
    unfolding foldInterval_def Let_def
    using sum
    by (auto simp: movsOfGrid_start upd phaseTotal_start tot app)
qed

lemma getPhases_loop_total:
  assumes "zs \<noteq> []" and "distinct (map fst zs)" and "lastIndex = fst (last zs)"
    and "\<forall>j\<in>fst ` set zs. \<forall>gMov\<in>set (groupMovements pd).
          cellAt pd gMov j = ''G'' \<or> cellAt pd gMov j = ''Y'' \<or> cellAt pd gMov j = ''R''"
    and "movsOfGrid pd p"
  shows "\<exists>phs. getPhases_loop pd lastIndex zs (Some p) phases = Inr phs
           \<and> phasesTotal phs = phasesTotal phases + phaseTotal p + sum_list (map snd zs)"
  using assms
proof (induction zs arbitrary: p phases rule: list_nonempty_induct)
  case (single z)
  obtain j d where z: "z = (j, d)" by (cases z)
  from single obtain p' phases' where
    f: "foldInterval (movsInState pd j ''G'') (movsInState pd j ''Y'')
             (movsInState pd j ''R'') d p phases = Inr (p', phases')"
    and t: "phasesTotal phases' + phaseTotal p' = phasesTotal phases + phaseTotal p + d"
    using foldInterval_total[of pd j p d phases] z by auto
  show ?case using f t single.prems(2) z by (simp add: phasesTotal_def)
next
  case (cons z zs)
  obtain j d where z: "z = (j, d)" by (cases z)
  from cons.prems obtain p' phases' where
    f: "foldInterval (movsInState pd j ''G'') (movsInState pd j ''Y'')
             (movsInState pd j ''R'') d p phases = Inr (p', phases')"
    and inv: "movsOfGrid pd p'"
    and t: "phasesTotal phases' + phaseTotal p' = phasesTotal phases + phaseTotal p + d"
    using foldInterval_total[of pd j p d phases] z by auto
  have ne: "j \<noteq> lastIndex"
    using cons.prems(1,2) cons.hyps(1) z by (auto simp: image_iff)
  have "\<exists>phs. getPhases_loop pd lastIndex zs (Some p') phases' = Inr phs
           \<and> phasesTotal phs = phasesTotal phases' + phaseTotal p' + sum_list (map snd zs)"
    using cons.prems cons.hyps(1) inv by (intro cons.IH) auto
  then show ?case using f t ne z by auto
qed

lemma getPhases_loop_conserves:
  assumes wf: "wellFormedGrid pd N" and len: "length durs = N" and two: "2 \<le> N"
  shows "\<exists>phs. getPhases_loop pd (last (timeIndices pd)) (zip (timeIndices pd) durs) None []
                  = Inr phs
           \<and> phasesTotal phs = sum_list durs"
proof -
  from len two obtain d ds where durs: "durs = d # ds" and ds: "ds \<noteq> []" "length ds = N - 1"
    by (cases durs) (auto simp: Suc_le_eq)
  have ti: "timeIndices pd = 1 # [2 ..< Suc N]"
  proof -
    have "[1 ..< Suc N] = 1 # [Suc 1 ..< Suc N]" using two by (intro upt_conv_Cons) simp
    then show ?thesis using wf by (simp add: wellFormedGrid_def numeral_2_eq_2 del: upt_Suc)
  qed
  define zs where "zs = zip [2 ..< Suc N] ds"
  have lenis: "length [2 ..< Suc N] = length ds" using ds two by simp
  have mf: "map fst zs = [2 ..< Suc N]" and ms: "map snd zs = ds"
    unfolding zs_def using lenis by (simp_all only: map_fst_zip map_snd_zip)
  have zne: "zs \<noteq> []"
  proof
    assume "zs = []"
    then have "map snd zs = []" by simp
    with ms ds show False by simp
  qed
  have dz: "distinct (map fst zs)" by (simp only: mf distinct_upt)
  have lastz: "last (timeIndices pd) = fst (last zs)"
  proof -
    have "fst (last zs) = last (map fst zs)" using zne by (simp add: last_map)
    also have "\<dots> = last [2 ..< Suc N]" by (simp only: mf)
    also have "\<dots> = last (timeIndices pd)" using two by (simp add: ti)
    finally show ?thesis by simp
  qed
  have cells: "\<forall>j\<in>fst ` set zs. \<forall>gMov\<in>set (groupMovements pd).
          cellAt pd gMov j = ''G'' \<or> cellAt pd gMov j = ''Y'' \<or> cellAt pd gMov j = ''R''"
  proof -
    have "fst ` set zs = set (map fst zs)" by simp
    also have "\<dots> \<subseteq> set (timeIndices pd)" unfolding mf ti by auto
    finally show ?thesis using wf unfolding wellFormedGrid_def by blast
  qed
  have inv: "movsOfGrid pd (startPhase (movsInState pd 1 ''G'') d 0)"
    by (rule movsOfGrid_start)
  from getPhases_loop_total[OF zne dz lastz cells inv, of "[]"]
  obtain phs where
    "getPhases_loop pd (last (timeIndices pd)) zs
        (Some (startPhase (movsInState pd 1 ''G'') d 0)) [] = Inr phs"
    "phasesTotal phs = phasesTotal [] + phaseTotal (startPhase (movsInState pd 1 ''G'') d 0)
                 + sum_list (map snd zs)"
    by blast
  then have "getPhases_loop pd (last (timeIndices pd)) (zip (timeIndices pd) durs) None [] = Inr phs
       \<and> phasesTotal phs = sum_list durs"
    unfolding durs
    by (simp add: ti zs_def[symmetric] ms phaseTotal_start phasesTotal_def del: upt_Suc)
  then show ?thesis by blast
qed

text \<open>
  With two intervals or more, on a well-formed operating period, \<open>getPhases\<close> returns and
  the phases add up to the raw interval durations (exactly, over the reals); in particular
  the last \<open>else\<close> of the loop is never reached there.
\<close>

lemma getPhases_conserves_from_two_intervals:
  assumes "selectCSO self startHour endHour = Some timing"
    and "wellFormedGrid (phasingData self) N" and "length (times timing) = N" and "2 \<le> N"
  shows "\<exists>phs. getPhases self startHour endHour = Inr phs
           \<and> phasesTotal phs = sum_list (times timing)"
proof -
  have "timeIndices (phasingData self) \<noteq> []"
    using assms(2,4) by (simp add: wellFormedGrid_def)
  then show ?thesis
    using getPhases_loop_conserves[OF assms(2,3,4)] assms(1) by (simp add: getPhases_def)
qed

lemma oneIntervalCard_wellFormed:
  "wellFormedGrid (phasingData oneIntervalCard) 1
   \<and> selectCSO oneIntervalCard (Time 15 30) (Time 18 30)
       = Some (snd (hd (signalTiming oneIntervalCard)))
   \<and> times (snd (hd (signalTiming oneIntervalCard))) = [30]"
  by (simp add: getPhases_eval oneIntervalCard_def wellFormedGrid_def)

text \<open>
  C2. For every well-formed operating period, the phases \<open>getPhases\<close> returns add up
  (green + yellow + all-red) to the sum of the raw interval durations. The method does not
  do this on a grid of one interval: the interval that seeds the phase ends with
  \<open>continue\<close>, which skips the test on the last index, so the only phase is never pushed.
  Two movements, one interval of 30 seconds: no phase comes back, and the total 0 is not 30.
\<close>

theorem getPhases_single_interval_returns_no_phase:
  "getPhases oneIntervalCard (Time 15 30) (Time 18 30) = Inr []
   \<and> phasesTotal [] = 0
   \<and> sum_list (times (snd (hd (signalTiming oneIntervalCard)))) = 30"
  by (simp add: getPhases_eval oneIntervalCard_def phasesTotal_def)

subsection \<open>The last \<open>else\<close> of the loop\<close>

text \<open>
  On a grid whose cells are all G, Y or R the loop returns from every state it can be in:
  the last \<open>else\<close> is never taken, whatever the number of intervals and of durations.
\<close>

lemma getPhases_loop_returns:
  assumes "\<forall>j\<in>fst ` set zs. \<forall>gMov\<in>set (groupMovements pd).
          cellAt pd gMov j = ''G'' \<or> cellAt pd gMov j = ''Y'' \<or> cellAt pd gMov j = ''R''"
    and "case pPhase of None \<Rightarrow> True | Some p \<Rightarrow> movsOfGrid pd p"
  shows "\<exists>phs. getPhases_loop pd lastIndex zs pPhase phases = Inr phs"
  using assms
proof (induction zs arbitrary: pPhase phases)
  case Nil
  then show ?case by simp
next
  case (Cons z zs)
  obtain j d where z: "z = (j, d)" by (cases z)
  show ?case
  proof (cases pPhase)
    case None
    have "\<exists>phs. getPhases_loop pd lastIndex zs
              (Some (startPhase (movsInState pd j ''G'') d 0)) phases = Inr phs"
      using Cons.prems(1) by (intro Cons.IH) (auto simp: movsOfGrid_start)
    then show ?thesis using None z by simp
  next
    case (Some p)
    with Cons.prems z obtain p' phases' where
      f: "foldInterval (movsInState pd j ''G'') (movsInState pd j ''Y'')
             (movsInState pd j ''R'') d p phases = Inr (p', phases')"
      and inv: "movsOfGrid pd p'"
      using foldInterval_total[of pd j p d phases] by auto
    have "\<exists>phs. getPhases_loop pd lastIndex zs (Some p')
              (if j = lastIndex then phases' @ [p'] else phases') = Inr phs"
      using Cons.prems(1) inv by (intro Cons.IH) auto
    then show ?thesis using Some z f by simp
  qed
qed

lemma getPhases_returns_on_wellFormed:
  assumes "selectCSO self startHour endHour = Some timing"
    and "wellFormedGrid (phasingData self) N" and "1 \<le> N"
  shows "\<exists>phs. getPhases self startHour endHour = Inr phs"
proof -
  let ?pd = "phasingData self"
  have ne: "timeIndices ?pd \<noteq> []" using assms(2,3) by (auto simp: wellFormedGrid_def)
  have "fst ` set (zip (timeIndices ?pd) (times timing)) \<subseteq> set (timeIndices ?pd)"
    by (auto dest: set_zip_leftD)
  then have cells: "\<forall>j\<in>fst ` set (zip (timeIndices ?pd) (times timing)).
        \<forall>gMov\<in>set (groupMovements ?pd).
          cellAt ?pd gMov j = ''G'' \<or> cellAt ?pd gMov j = ''Y'' \<or> cellAt ?pd gMov j = ''R''"
    using assms(2) unfolding wellFormedGrid_def by blast
  from getPhases_loop_returns[OF cells, of None "last (timeIndices ?pd)" "[]"]
  show ?thesis using assms(1) ne by (simp add: getPhases_def)
qed

text \<open>
  The branch is live in the model all the same: a grid with a cell that is none of G, Y
  and R (which \<open>getPhasingData\<close> never stores) takes it, and the read of the unassigned
  \<open>cActiveMovs\<close> ends the call.
\<close>

lemma getPhases_stray_cell:
  "getPhases strayCellCard (Time 15 30) (Time 18 30) = Inl (NameError ''cActiveMovs'')"
  by (simp add: getPhases_eval strayCellCard_def)

section \<open>Results: time-period selection\<close>

lemma for_return_first:
  "i < length xs \<Longrightarrow> cond (xs ! i) \<Longrightarrow> (\<forall>j<i. \<not> cond (xs ! j))
     \<Longrightarrow> for_return cond xs = Some (xs ! i)"
proof (induction xs arbitrary: i)
  case Nil then show ?case by simp
next
  case (Cons x xs)
  show ?case
  proof (cases i)
    case 0 with Cons.prems show ?thesis by simp
  next
    case (Suc k)
    with Cons.prems have "\<not> cond x" by auto
    moreover have "for_return cond xs = Some (xs ! k)"
      using Cons.prems Suc by (intro Cons.IH) auto
    ultimately show ?thesis using Suc by simp
  qed
qed

lemma for_return_None: "(for_return cond xs = None) = (\<forall>x\<in>set xs. \<not> cond x)"
  by (induction xs) auto

lemma for_return_Some: "for_return cond xs = Some x \<Longrightarrow> x \<in> set xs \<and> cond x"
  by (induction xs) (auto split: if_splits)

lemma for_return_ex:
  "\<exists>x\<in>set xs. cond x \<Longrightarrow> \<exists>x\<in>set xs. for_return cond xs = Some x \<and> cond x"
  using for_return_None[of cond xs] for_return_Some[of cond xs]
  by (cases "for_return cond xs") auto

lemmas selectCSO_eval =
  selectCSO_def iterSignalTiming_def cardOfPeriods_def period_def inOperation_def
  time_le_def time_less_def ExcelSignalTiming_init_def

text \<open>
  C4. For every card and query window, \<open>selectCSO\<close> returns the first operating period with
  recorded start \<open>\<le>\<close> query start \<open>\<le>\<close> recorded end and recorded end strictly after recorded
  start; if there is none, a period with start = end = 0:00 if one exists; else a period
  with start 0:00 and end 23:59 if one exists; else none. (\<open>ts\<close> are the periods in the
  order the card iterates them.)
\<close>

theorem selectCSO_three_tiers:
  fixes excelCard :: SignalData and q e :: Time
  defines "ts \<equiv> iterSignalTiming excelCard"
  shows "(\<forall>i<length ts. inOperation q (ts ! i) \<and> (\<forall>j<i. \<not> inOperation q (ts ! j))
            \<longrightarrow> selectCSO excelCard q e = Some (ts ! i))
       \<and> ((\<forall>t\<in>set ts. \<not> inOperation q t)
            \<and> (\<exists>t\<in>set ts. startTime t = Time 0 0 \<and> endTime t = Time 0 0)
            \<longrightarrow> (\<exists>t\<in>set ts. selectCSO excelCard q e = Some t
                     \<and> startTime t = Time 0 0 \<and> endTime t = Time 0 0))
       \<and> ((\<forall>t\<in>set ts. \<not> inOperation q t)
            \<and> (\<forall>t\<in>set ts. \<not> (startTime t = Time 0 0 \<and> endTime t = Time 0 0))
            \<and> (\<exists>t\<in>set ts. startTime t = Time 0 0 \<and> endTime t = Time 23 59)
            \<longrightarrow> (\<exists>t\<in>set ts. selectCSO excelCard q e = Some t
                     \<and> startTime t = Time 0 0 \<and> endTime t = Time 23 59))
       \<and> ((\<forall>t\<in>set ts. \<not> inOperation q t)
            \<and> (\<forall>t\<in>set ts. \<not> (startTime t = Time 0 0 \<and> endTime t = Time 0 0))
            \<and> (\<forall>t\<in>set ts. \<not> (startTime t = Time 0 0 \<and> endTime t = Time 23 59))
            \<longrightarrow> selectCSO excelCard q e = None)"
proof (intro conjI allI impI)
  fix i
  assume "i < length ts"
    and h: "inOperation q (ts ! i) \<and> (\<forall>j<i. \<not> inOperation q (ts ! j))"
  then have "for_return (inOperation q) ts = Some (ts ! i)"
    by (intro for_return_first) auto
  then show "selectCSO excelCard q e = Some (ts ! i)"
    by (simp add: selectCSO_def ts_def inOperation_def[abs_def])
next
  assume h: "(\<forall>t\<in>set ts. \<not> inOperation q t)
        \<and> (\<exists>t\<in>set ts. startTime t = Time 0 0 \<and> endTime t = Time 0 0)"
  then have n: "for_return (inOperation q) ts = None" by (simp add: for_return_None)
  from h obtain t where "t \<in> set ts"
     "for_return (\<lambda>t. startTime t = Time 0 0 \<and> endTime t = Time 0 0) ts = Some t"
     "startTime t = Time 0 0 \<and> endTime t = Time 0 0"
    using for_return_ex[of ts "\<lambda>t. startTime t = Time 0 0 \<and> endTime t = Time 0 0"] by blast
  with n show "\<exists>t\<in>set ts. selectCSO excelCard q e = Some t
                  \<and> startTime t = Time 0 0 \<and> endTime t = Time 0 0"
    by (auto simp: selectCSO_def ts_def inOperation_def[abs_def])
next
  assume h: "(\<forall>t\<in>set ts. \<not> inOperation q t)
        \<and> (\<forall>t\<in>set ts. \<not> (startTime t = Time 0 0 \<and> endTime t = Time 0 0))
        \<and> (\<exists>t\<in>set ts. startTime t = Time 0 0 \<and> endTime t = Time 23 59)"
  then have n: "for_return (inOperation q) ts = None"
    and n2: "for_return (\<lambda>t. startTime t = Time 0 0 \<and> endTime t = Time 0 0) ts = None"
    by (simp_all add: for_return_None)
  from h obtain t where "t \<in> set ts"
     "for_return (\<lambda>t. startTime t = Time 0 0 \<and> endTime t = Time 23 59) ts = Some t"
     "startTime t = Time 0 0 \<and> endTime t = Time 23 59"
    using for_return_ex[of ts "\<lambda>t. startTime t = Time 0 0 \<and> endTime t = Time 23 59"] by blast
  with n n2 show "\<exists>t\<in>set ts. selectCSO excelCard q e = Some t
                  \<and> startTime t = Time 0 0 \<and> endTime t = Time 23 59"
    by (auto simp: selectCSO_def ts_def inOperation_def[abs_def])
next
  assume h: "(\<forall>t\<in>set ts. \<not> inOperation q t)
        \<and> (\<forall>t\<in>set ts. \<not> (startTime t = Time 0 0 \<and> endTime t = Time 0 0))
        \<and> (\<forall>t\<in>set ts. \<not> (startTime t = Time 0 0 \<and> endTime t = Time 23 59))"
  then have "for_return (inOperation q) ts = None"
    "for_return (\<lambda>t. startTime t = Time 0 0 \<and> endTime t = Time 0 0) ts = None"
    "for_return (\<lambda>t. startTime t = Time 0 0 \<and> endTime t = Time 23 59) ts = None"
    by (simp_all add: for_return_None)
  then show "selectCSO excelCard q e = None"
    by (simp add: selectCSO_def ts_def inOperation_def[abs_def])
qed

text \<open>
  The four cases at concrete cards, for the window 15:30 to 18:30: a card whose first
  period is the 23:59 sentinel and whose second is 7:00 to 19:00; a card with a morning period
  and a midnight period; a card with a morning period only. A period 0:00 to 23:59 is in
  operation at every time of day up to 23:59, so the third case is shown at a query start
  past it.
\<close>

theorem selectCSO_three_tiers_witness:
  "(inOperation (Time 15 30) (iterSignalTiming weekdayCard ! 1)
      \<and> \<not> inOperation (Time 15 30) (iterSignalTiming weekdayCard ! 0)
      \<and> selectCSO weekdayCard (Time 15 30) (Time 18 30) = Some (iterSignalTiming weekdayCard ! 1)
      \<and> startTime (iterSignalTiming weekdayCard ! 1) = Time 7 0)
   \<and> (length (iterSignalTiming otherTimesCard) = 2
      \<and> \<not> inOperation (Time 15 30) (iterSignalTiming otherTimesCard ! 0)
      \<and> \<not> inOperation (Time 15 30) (iterSignalTiming otherTimesCard ! 1)
      \<and> (\<exists>t\<in>set (iterSignalTiming otherTimesCard).
            selectCSO otherTimesCard (Time 15 30) (Time 18 30) = Some t
            \<and> startTime t = Time 0 0 \<and> endTime t = Time 0 0))
   \<and> (length (iterSignalTiming fullDayCard) = 2
      \<and> \<not> inOperation (Time 24 0) (iterSignalTiming fullDayCard ! 0)
      \<and> \<not> inOperation (Time 24 0) (iterSignalTiming fullDayCard ! 1)
      \<and> (\<exists>t\<in>set (iterSignalTiming fullDayCard).
            selectCSO fullDayCard (Time 24 0) (Time 24 0) = Some t
            \<and> startTime t = Time 0 0 \<and> endTime t = Time 23 59))
   \<and> (length (iterSignalTiming morningOnlyCard) = 2
      \<and> \<not> inOperation (Time 15 30) (iterSignalTiming morningOnlyCard ! 0)
      \<and> \<not> inOperation (Time 15 30) (iterSignalTiming morningOnlyCard ! 1)
      \<and> selectCSO morningOnlyCard (Time 15 30) (Time 18 30) = None)"
proof -
  have a1: "1 < length (iterSignalTiming weekdayCard)
      \<and> inOperation (Time 15 30) (iterSignalTiming weekdayCard ! 1)
      \<and> (\<forall>j<1. \<not> inOperation (Time 15 30) (iterSignalTiming weekdayCard ! j))"
    by (simp add: weekdayCard_def selectCSO_eval)
  have s1: "startTime (iterSignalTiming weekdayCard ! 1) = Time 7 0"
    by (simp add: weekdayCard_def selectCSO_eval)
  have a2: "(\<forall>t\<in>set (iterSignalTiming otherTimesCard). \<not> inOperation (Time 15 30) t)
      \<and> (\<exists>t\<in>set (iterSignalTiming otherTimesCard). startTime t = Time 0 0 \<and> endTime t = Time 0 0)"
    by (simp add: otherTimesCard_def selectCSO_eval)
  have a3: "(\<forall>t\<in>set (iterSignalTiming fullDayCard). \<not> inOperation (Time 24 0) t)
      \<and> (\<forall>t\<in>set (iterSignalTiming fullDayCard).
            \<not> (startTime t = Time 0 0 \<and> endTime t = Time 0 0))
      \<and> (\<exists>t\<in>set (iterSignalTiming fullDayCard). startTime t = Time 0 0 \<and> endTime t = Time 23 59)"
    by (simp add: fullDayCard_def selectCSO_eval)
  have a4: "(\<forall>t\<in>set (iterSignalTiming morningOnlyCard). \<not> inOperation (Time 15 30) t)
      \<and> (\<forall>t\<in>set (iterSignalTiming morningOnlyCard).
            \<not> (startTime t = Time 0 0 \<and> endTime t = Time 0 0))
      \<and> (\<forall>t\<in>set (iterSignalTiming morningOnlyCard).
            \<not> (startTime t = Time 0 0 \<and> endTime t = Time 23 59))"
    by (simp add: morningOnlyCard_def selectCSO_eval)
  have c1: "selectCSO weekdayCard (Time 15 30) (Time 18 30) = Some (iterSignalTiming weekdayCard ! 1)"
    using selectCSO_three_tiers[where excelCard=weekdayCard and q="Time 15 30" and e="Time 18 30"] a1 by blast
  have c2: "\<exists>t\<in>set (iterSignalTiming otherTimesCard).
            selectCSO otherTimesCard (Time 15 30) (Time 18 30) = Some t
            \<and> startTime t = Time 0 0 \<and> endTime t = Time 0 0"
    using selectCSO_three_tiers[where excelCard=otherTimesCard and q="Time 15 30" and e="Time 18 30"] a2 by blast
  have c3: "\<exists>t\<in>set (iterSignalTiming fullDayCard).
            selectCSO fullDayCard (Time 24 0) (Time 24 0) = Some t
            \<and> startTime t = Time 0 0 \<and> endTime t = Time 23 59"
    using selectCSO_three_tiers[where excelCard=fullDayCard and q="Time 24 0" and e="Time 24 0"] a3 by blast
  have c4: "selectCSO morningOnlyCard (Time 15 30) (Time 18 30) = None"
    using selectCSO_three_tiers[where excelCard=morningOnlyCard and q="Time 15 30" and e="Time 18 30"] a4 by blast
  from a1 have a1': "inOperation (Time 15 30) (iterSignalTiming weekdayCard ! 1)"
    "\<not> inOperation (Time 15 30) (iterSignalTiming weekdayCard ! 0)" by auto
  have e2: "length (iterSignalTiming otherTimesCard) = 2
      \<and> \<not> inOperation (Time 15 30) (iterSignalTiming otherTimesCard ! 0)
      \<and> \<not> inOperation (Time 15 30) (iterSignalTiming otherTimesCard ! 1)"
    by (simp add: otherTimesCard_def selectCSO_eval)
  have e3: "length (iterSignalTiming fullDayCard) = 2
      \<and> \<not> inOperation (Time 24 0) (iterSignalTiming fullDayCard ! 0)
      \<and> \<not> inOperation (Time 24 0) (iterSignalTiming fullDayCard ! 1)"
    by (simp add: fullDayCard_def selectCSO_eval)
  have e4: "length (iterSignalTiming morningOnlyCard) = 2
      \<and> \<not> inOperation (Time 15 30) (iterSignalTiming morningOnlyCard ! 0)
      \<and> \<not> inOperation (Time 15 30) (iterSignalTiming morningOnlyCard ! 1)"
    by (simp add: morningOnlyCard_def selectCSO_eval)
  show ?thesis using a1' s1 c1 e2 c2 e3 c3 e4 c4 by blast
qed

text \<open>
  The method \<open>SignalData.selectCSO\<close> is another function: at a query start of 0:00, on a card
  with a midnight period and a full-day period, it answers the midnight period, where
  \<open>selectCSO\<close> answers the full-day one.
\<close>

lemma SignalData_selectCSO_differs:
  "SignalData_selectCSO bothFallbacksCard (Time 0 0) (Time 0 0) = Some ''1''
   \<and> map_option cso (selectCSO bothFallbacksCard (Time 0 0) (Time 0 0)) = Some ''2''"
  by (simp add: SignalData_selectCSO_def bothFallbacksCard_def selectCSO_eval)

section \<open>Results: timing rows\<close>

lemma matchFirstChar_none:
  "\<forall>k\<in>set keys. take 1 k \<noteq> sub \<Longrightarrow> matchFirstChar keys sub st = st"
  unfolding matchFirstChar_def
  by (induction keys arbitrary: st) (auto split: prod.splits)

lemma matchAllOtherTimes_last:
  "keys \<noteq> [] \<Longrightarrow> matchAllOtherTimes keys st = (True, last keys)"
  unfolding matchAllOtherTimes_def
proof (induction keys arbitrary: st rule: rev_induct)
  case Nil then show ?case by simp
next
  case (snoc k keys)
  then show ?case by (simp split: prod.splits)
qed

text \<open>
  A row whose first cell starts with F or with a dash, and which matches no key on the
  first character, goes to the key the dictionary iterates last, whatever the keys are.
\<close>

lemma resolveCso_free_goes_last:
  assumes "keys \<noteq> []" and "c = CHR ''F'' \<or> c = CHR ''-''"
    and "\<forall>k\<in>set keys. take 1 k \<noteq> c # cs"
  shows "resolveCso keys ((c # cs) # cells) timename = Inr (Some (last keys))"
  using assms
  by (simp add: resolveCso_def matchFirstChar_none matchAllOtherTimes_last)

text \<open>
  C5. A code that denotes FREE, or starts with F or a dash, is merged into an existing
  period whose code begins with 1 whenever there is one, and into the last candidate only
  when there is none. The loop does not do this: both branches of its \<open>if\<close> assign, so the
  last key iterated always wins. With the keys 111 and 211, in this order, a FREE row goes
  to 211 although 111 exists.
\<close>

theorem resolveCso_free_ignores_period_one:
  "resolveCso [''111'', ''211''] [''FREE''] [] = Inr (Some ''211'')"
  by (simp add: resolveCso_def matchFirstChar_def matchAllOtherTimes_def)

text \<open>
  C6. A row whose code ends in a double dash and whose cycle cell is the literal -- gives
  a period with offset 0, no cycle and actuated set, and does not raise. For a code of four
  characters the branch that tests exactly this calls \<open>float\<close> on the cycle cell, outside
  the \<open>try\<close> block: as \<open>float\<close> of -- is a ValueError, the row raises it, unhandled.
\<close>

theorem setCycleOffset_double_dash_raises:
  "py_endswith strCso ''--'' \<Longrightarrow> length strCso = 4 \<Longrightarrow> pyfloat ''--'' = None \<Longrightarrow>
   setCycleOffset pyfloat strCso ''--'' strOffset = Inl (ValueError ''--'')"
  by (simp add: setCycleOffset_def)

theorem setCycleOffset_double_dash_raises_witness:
  "py_endswith ''12--'' ''--'' \<and> length ''12--'' = 4 \<and> decimalLiteral ''--'' = None
   \<and> setCycleOffset decimalLiteral ''12--'' ''--'' ''-'' = Inl (ValueError ''--'')"
  using setCycleOffset_double_dash_raises[of "''12--''" decimalLiteral "''-''"]
  by (simp add: py_endswith_def decimalLiteral_def digitValue_def)

text \<open>
  A code of three characters ending in a double dash takes the last branch instead, where
  the cycle is unset and the period actuated, and the offset is that of the offset cell.
\<close>

lemma setCycleOffset_three_characters:
  "setCycleOffset decimalLiteral ''1--'' ''--'' ''-''
     = Inr (ExcelSignalTiming_init\<lparr>cso := ''1--'', cycle := None, offset := 0, isActuated := True\<rparr>)
   \<and> offset (projr (setCycleOffset decimalLiteral ''1--'' ''--'' ''5'')) = 5"
  by (simp add: setCycleOffset_def py_endswith_def decimalLiteral_def digitValue_def
      ExcelSignalTiming_init_def)

section \<open>Results: weekday plans\<close>

lemma upperChar_X: "(upperChar c = CHR ''X'') = (c = CHR ''X'' \<or> c = CHR ''x'')"
  by (auto simp: upperChar_def split: if_splits)

lemma py_upper_X: "(py_upper s = ''X'') = (s = ''X'' \<or> s = ''x'')"
  by (cases s) (auto simp: py_upper_def upperChar_X)

text \<open>
  On a row that is no weekday plan the loop of \<open>setTimes\<close> returns; if a scanned cell is
  not blank the period ends at 23:59 to 23:59, and if every scanned cell is blank the period
  is left as it was.
\<close>

lemma setTimes_loop_not_weekday:
  assumes nw: "\<not> checkForWeekdayPlan sh row colCycle"
  shows "\<exists>t' fl'. setTimes_loop sh weekdayCell row colCycle cols (t, fl) = Inr (t', fl')
           \<and> ((\<exists>c\<in>set cols. py_strip (sh row c) \<noteq> []) \<longrightarrow>
                 startTime t' = Time 23 59 \<and> endTime t' = Time 23 59)
           \<and> ((\<forall>c\<in>set cols. py_strip (sh row c) = []) \<longrightarrow> t' = t)
           \<and> (startTime t = Time 23 59 \<and> endTime t = Time 23 59 \<longrightarrow>
                 startTime t' = Time 23 59 \<and> endTime t' = Time 23 59)"
  using nw
proof (induction cols arbitrary: t fl)
  case Nil
  then show ?case by simp
next
  case (Cons c cols)
  show ?case
  proof (cases "py_strip (sh row c) = []")
    case True
    with Cons.IH[OF Cons.prems, of t fl] show ?thesis by auto
  next
    case False
    with Cons.IH[OF Cons.prems, of "t\<lparr>startTime := Time 23 59, endTime := Time 23 59\<rparr>"
        "fl\<lparr>gotStartTime := True\<rparr>"] Cons.prems
    show ?thesis by auto
  qed
qed

text \<open>
  C7 (as amended). A timing row is weekday-active if and only if the two cells three and
  two columns left of the cycle column, stripped, both equal X without regard to case and
  are written in the same case (both X or both x). A row that is not weekday-active and has
  a non-blank cell among the scanned columns gets start = end = 23:59.
\<close>

theorem weekday_plan_same_case:
  "checkForWeekdayPlan sh row colCycle =
     (py_upper (py_strip (sh row (colCycle - 3))) = ''X''
      \<and> py_upper (py_strip (sh row (colCycle - 2))) = ''X''
      \<and> py_strip (sh row (colCycle - 3)) = py_strip (sh row (colCycle - 2)))
   \<and> (\<not> checkForWeekdayPlan sh row colCycle
        \<and> (\<exists>c\<in>set [topLeftCol .. colPhaseData - 1]. py_strip (sh row c) \<noteq> []) \<longrightarrow>
       (\<exists>t' fl'. setTimes sh weekdayCell row colCycle topLeftCol colPhaseData t = Inr (t', fl')
           \<and> startTime t' = Time 23 59 \<and> endTime t' = Time 23 59))"
proof (intro conjI impI)
  show "checkForWeekdayPlan sh row colCycle =
     (py_upper (py_strip (sh row (colCycle - 3))) = ''X''
      \<and> py_upper (py_strip (sh row (colCycle - 2))) = ''X''
      \<and> py_strip (sh row (colCycle - 3)) = py_strip (sh row (colCycle - 2)))"
    by (auto simp: checkForWeekdayPlan_def Let_def py_upper_X)
next
  assume h: "\<not> checkForWeekdayPlan sh row colCycle
        \<and> (\<exists>c\<in>set [topLeftCol .. colPhaseData - 1]. py_strip (sh row c) \<noteq> [])"
  then show "\<exists>t' fl'. setTimes sh weekdayCell row colCycle topLeftCol colPhaseData t = Inr (t', fl')
           \<and> startTime t' = Time 23 59 \<and> endTime t' = Time 23 59"
    unfolding setTimes_def
    using setTimes_loop_not_weekday[of sh row colCycle weekdayCell
        "[topLeftCol .. colPhaseData - 1]" t]
    by blast
qed

lemmas sheet_eval =
  checkForWeekdayPlan_def mixedCaseSheet_def py_strip_def isSpace_def py_upper_def upperChar_def

theorem weekday_plan_same_case_witness:
  "\<not> checkForWeekdayPlan mixedCaseSheet 0 3
   \<and> (\<exists>c\<in>set [0 .. 2 - 1]. py_strip (mixedCaseSheet 0 c) \<noteq> [])
   \<and> startTime dayPeriod = Time 7 0
   \<and> (\<exists>t' fl'. setTimes mixedCaseSheet keepState 0 3 0 2 dayPeriod = Inr (t', fl')
         \<and> startTime t' = Time 23 59 \<and> endTime t' = Time 23 59)"
proof -
  have a: "\<not> checkForWeekdayPlan mixedCaseSheet 0 3" by (simp add: sheet_eval)
  have "py_strip (mixedCaseSheet 0 0) \<noteq> []" by (simp add: sheet_eval)
  moreover have "(0::int) \<in> set [0 .. 2 - 1]" by simp
  ultimately have b: "\<exists>c\<in>set [0 .. 2 - 1]. py_strip (mixedCaseSheet 0 c) \<noteq> []" by blast
  have c: "startTime dayPeriod = Time 7 0" by (simp add: dayPeriod_def)
  from weekday_plan_same_case[of mixedCaseSheet 0 3 0 2 keepState dayPeriod] a b c
  show ?thesis by blast
qed

text \<open>
  The claim as stated fails where the two cells differ in case: X and x both equal X
  without regard to case, and the row is not weekday-active.
\<close>

theorem checkForWeekdayPlan_mixed_case_counterexample:
  "py_upper (py_strip (mixedCaseSheet 0 (3 - 3))) = ''X''
   \<and> py_upper (py_strip (mixedCaseSheet 0 (3 - 2))) = ''X''
   \<and> \<not> checkForWeekdayPlan mixedCaseSheet 0 3"
  by (simp add: sheet_eval)

section \<open>Results: movement classification\<close>

lemma directionLoop_eq:
  "directionLoop g dir inds res = (if \<exists>i\<in>set inds. indicates g i then res @ [dir] else res)"
  by (induction inds) auto

lemma directionItemsLoop_eq:
  "directionItemsLoop g items res =
     res @ map fst (filter (\<lambda>e. \<exists>i\<in>set (snd e). indicates g i) items)"
  by (induction items arbitrary: res) (auto simp: directionLoop_eq)

lemma distinct_singleton: "distinct xs \<Longrightarrow> set xs = {e} \<Longrightarrow> xs = [e]"
proof (cases xs)
  case Nil
  assume "set xs = {e}" with Nil show ?thesis by simp
next
  case (Cons a ys)
  assume d: "distinct xs" and s: "set xs = {e}"
  from s Cons have a: "a = e" and sub: "set ys \<subseteq> {e}" by auto
  from d Cons a have "e \<notin> set ys" by simp
  with sub have "\<forall>y. y \<notin> set ys" by blast
  then have "ys = []" by (cases ys) auto
  then show ?thesis using Cons a by simp
qed

lemma filter_iterationOrder:
  assumes "iterationOrder items dict" and "filter P dict = [e]"
  shows "filter P items = [e]"
proof -
  have "set (filter P items) = set (filter P dict)"
    using assms(1) by (auto simp: iterationOrder_def)
  then have "set (filter P items) = {e}" using assms(2) by simp
  moreover have "distinct (filter P items)" using assms(1) by (simp add: iterationOrder_def)
  ultimately show ?thesis by (rule distinct_singleton[rotated])
qed

lemma westbound_only:
  "filter (\<lambda>e. \<exists>i\<in>set (snd e). indicates ''17TH ST. W/B THRU'' i) directionIndicators
     = [(''WB'', wbIndicators)]"
  by (simp add: directionIndicators_def indicates_def wbIndicators_def ebIndicators_def
      nbIndicators_def sbIndicators_def)

lemma getDirections_order:
  "iterationOrder items directionIndicators
     \<Longrightarrow> getDirections items ''17TH ST. W/B THRU'' = [''WB'']"
  by (simp add: getDirections_def directionItemsLoop_eq filter_iterationOrder[OF _ westbound_only])

text \<open>The loops of \<open>groupMovementToTurnType\<close> only add to \<open>result\<close> and only set
  \<open>thruadded\<close>.\<close>

lemma turnIndicatorLoop_mono:
  "set (fst st) \<subseteq> set (fst (turnIndicatorLoop g add dir inds st))
   \<and> (snd st \<longrightarrow> snd (turnIndicatorLoop g add dir inds st))"
proof (induction inds arbitrary: st)
  case Nil then show ?case by simp
next
  case (Cons i inds)
  obtain res th where st: "st = (res, th)" by (cases st)
  let ?st' = "(if dir = TURN_RIGHT \<and> (if py_in i g \<and> dir = TURN_THRU then True else th) \<and> add
                 then (if py_in i g then res @ dir else res) @ dir
                 else (if py_in i g then res @ dir else res),
               if py_in i g \<and> dir = TURN_THRU then True else th)"
  have "turnIndicatorLoop g add dir (i # inds) st = turnIndicatorLoop g add dir inds ?st'"
    by (simp add: st Let_def)
  moreover have "set res \<subseteq> set (fst ?st')" "th \<longrightarrow> snd ?st'" by auto
  ultimately show ?case using Cons.IH[of ?st'] st by auto
qed

lemma turnIndicatorLoop_match:
  "\<exists>i\<in>set inds. py_in i g \<Longrightarrow>
   set dir \<subseteq> set (fst (turnIndicatorLoop g add dir inds st))
   \<and> (dir = TURN_THRU \<longrightarrow> snd (turnIndicatorLoop g add dir inds st))"
proof (induction inds arbitrary: st)
  case Nil then show ?case by simp
next
  case (Cons i inds)
  obtain res th where st: "st = (res, th)" by (cases st)
  let ?st' = "(if dir = TURN_RIGHT \<and> (if py_in i g \<and> dir = TURN_THRU then True else th) \<and> add
                 then (if py_in i g then res @ dir else res) @ dir
                 else (if py_in i g then res @ dir else res),
               if py_in i g \<and> dir = TURN_THRU then True else th)"
  have eq: "turnIndicatorLoop g add dir (i # inds) st = turnIndicatorLoop g add dir inds ?st'"
    by (simp add: st Let_def)
  show ?case
  proof (cases "py_in i g")
    case True
    then have "set dir \<subseteq> set (fst ?st')" "dir = TURN_THRU \<longrightarrow> snd ?st'" by auto
    then show ?thesis using turnIndicatorLoop_mono[of ?st' g add dir inds] unfolding eq by blast
  next
    case False
    with Cons.prems have "\<exists>i\<in>set inds. py_in i g" by auto
    from Cons.IH[OF this, of ?st'] show ?thesis unfolding eq .
  qed
qed

lemma turnIndicatorLoop_right:
  assumes "snd st" and "add" and "inds \<noteq> []"
  shows "set TURN_RIGHT \<subseteq> set (fst (turnIndicatorLoop g add TURN_RIGHT inds st))"
proof -
  obtain i rest where inds: "inds = i # rest" using assms(3) by (cases inds) auto
  obtain res th where st: "st = (res, th)" by (cases st)
  have ne: "TURN_RIGHT \<noteq> TURN_THRU" by (simp add: TURN_RIGHT_def TURN_THRU_def)
  let ?st' = "((if py_in i g then res @ TURN_RIGHT else res) @ TURN_RIGHT, True)"
  have "turnIndicatorLoop g add TURN_RIGHT inds st = turnIndicatorLoop g add TURN_RIGHT rest ?st'"
    using assms(1,2) ne by (simp add: inds st Let_def)
  moreover have "set TURN_RIGHT \<subseteq> set (fst ?st')" by auto
  ultimately show ?thesis using turnIndicatorLoop_mono[of ?st' g add TURN_RIGHT rest] by auto
qed

lemma turnItemsLoop_append:
  "turnItemsLoop g add (xs @ ys) st = turnItemsLoop g add ys (turnItemsLoop g add xs st)"
proof (induction xs arbitrary: st)
  case Nil then show ?case by simp
next
  case (Cons e xs)
  obtain dir inds where e: "e = (dir, inds)" by (cases e)
  show ?case unfolding e using Cons.IH[of "turnIndicatorLoop g add dir inds st"] by simp
qed

lemma turnItemsLoop_mono:
  "set (fst st) \<subseteq> set (fst (turnItemsLoop g add items st))
   \<and> (snd st \<longrightarrow> snd (turnItemsLoop g add items st))"
proof (induction items arbitrary: st)
  case Nil then show ?case by simp
next
  case (Cons e items)
  obtain dir inds where e: "e = (dir, inds)" by (cases e)
  show ?case
    using turnIndicatorLoop_mono[of st g add dir inds]
      Cons.IH[of "turnIndicatorLoop g add dir inds st"]
    unfolding e by auto
qed

lemma turnItemsLoop_match:
  assumes "(dir, inds) \<in> set items" and "\<exists>i\<in>set inds. py_in i g"
  shows "set dir \<subseteq> set (fst (turnItemsLoop g add items st))"
proof -
  from assms(1) obtain pre post where items: "items = pre @ (dir, inds) # post"
    by (auto simp: in_set_conv_decomp)
  let ?s1 = "turnIndicatorLoop g add dir inds (turnItemsLoop g add pre st)"
  have "set dir \<subseteq> set (fst ?s1)" using turnIndicatorLoop_match[OF assms(2)] by blast
  moreover have "turnItemsLoop g add items st = turnItemsLoop g add post ?s1"
    by (simp add: items turnItemsLoop_append)
  ultimately show ?thesis using turnItemsLoop_mono[of ?s1 g add post] by auto
qed

lemma turnItemsLoop_thru_then_right:
  assumes "items = pre @ (TURN_THRU, tinds) # mid @ (TURN_RIGHT, rinds) # post"
    and "\<exists>i\<in>set tinds. py_in i g" and "add" and "rinds \<noteq> []"
  shows "set TURN_RIGHT \<subseteq> set (fst (turnItemsLoop g add items st))"
proof -
  let ?s1 = "turnIndicatorLoop g add TURN_THRU tinds (turnItemsLoop g add pre st)"
  let ?s2 = "turnItemsLoop g add mid ?s1"
  let ?s3 = "turnIndicatorLoop g add TURN_RIGHT rinds ?s2"
  have "snd ?s1" using turnIndicatorLoop_match[OF assms(2)] by blast
  then have "snd ?s2" using turnItemsLoop_mono[of ?s1 g add mid] by blast
  then have "set TURN_RIGHT \<subseteq> set (fst ?s3)" using assms(3,4) by (rule turnIndicatorLoop_right)
  moreover have "turnItemsLoop g add items st = turnItemsLoop g add post ?s3"
    by (simp add: assms(1) turnItemsLoop_append)
  ultimately show ?thesis using turnItemsLoop_mono[of ?s3 g add post] by auto
qed

lemma thru_indicated: "\<exists>i\<in>set thruTurnIndicators. py_in i ''17TH ST. W/B THRU''"
  by (simp add: thruTurnIndicators_def)

text \<open>
  Whatever the order in which the dictionary is iterated, the through types are in the
  result; the right types are added to them when the through indicators are visited before
  the right indicators.
\<close>

lemma turnTypes_any_dictionary_order:
  "(iterationOrder turnItems turnIndicators \<longrightarrow>
      set TURN_THRU
        \<subseteq> set (groupMovementToTurnType turnItems ''17TH ST. W/B THRU'' addRightToThru))
   \<and> (addRightToThru
        \<and> (\<exists>pre mid post. turnItems =
              pre @ (TURN_THRU, thruTurnIndicators) # mid
                @ (TURN_RIGHT, rightTurnIndicators) # post)
      \<longrightarrow> set TURN_RIGHT
            \<subseteq> set (groupMovementToTurnType turnItems ''17TH ST. W/B THRU'' addRightToThru))"
proof (intro conjI impI)
  assume "iterationOrder turnItems turnIndicators"
  then have "(TURN_THRU, thruTurnIndicators) \<in> set turnItems"
    by (simp add: iterationOrder_def turnIndicators_def)
  then show "set TURN_THRU
      \<subseteq> set (groupMovementToTurnType turnItems ''17TH ST. W/B THRU'' addRightToThru)"
    unfolding groupMovementToTurnType_def using thru_indicated by (rule turnItemsLoop_match)
next
  assume h: "addRightToThru
        \<and> (\<exists>pre mid post. turnItems =
              pre @ (TURN_THRU, thruTurnIndicators) # mid
                @ (TURN_RIGHT, rightTurnIndicators) # post)"
  then obtain pre mid post where
    "turnItems = pre @ (TURN_THRU, thruTurnIndicators) # mid
                   @ (TURN_RIGHT, rightTurnIndicators) # post"
    by blast
  moreover have "rightTurnIndicators \<noteq> []" by (simp add: rightTurnIndicators_def)
  ultimately show "set TURN_RIGHT
      \<subseteq> set (groupMovementToTurnType turnItems ''17TH ST. W/B THRU'' addRightToThru)"
    unfolding groupMovementToTurnType_def using thru_indicated h
    by (intro turnItemsLoop_thru_then_right[where pre=pre and mid=mid and post=post]) auto
qed

text \<open>
  An order that visits the right indicators first would leave the right types out; CPython
  2.7 does not iterate the dictionary in such an order.
\<close>

lemma groupMovementToTurnType_right_first:
  "groupMovementToTurnType rightFirstOrder ''17TH ST. W/B THRU'' True = [''TH'', ''TH2'']"
  by (simp add: rightFirstOrder_def groupMovementToTurnType_def TURN_RIGHT_def TURN_THRU_def
      TURN_LEFT_def rightTurnIndicators_def thruTurnIndicators_def leftTurnIndicators_def)

subsection \<open>Any order of the indicators within the lists\<close>
















text \<open>The lists as the source writes them, in the interpreter's order of the dictionaries.\<close>

lemma classify_17th_st_wb_thru_as_run:
  "getDirections directionIndicatorItems ''17TH ST. W/B THRU'' = [''WB'']
   \<and> groupMovementToTurnType turnIndicatorItems ''17TH ST. W/B THRU'' True
       = [''TH'', ''TH2'', ''RT'', ''RT2'', ''RT'', ''RT2'', ''RT'', ''RT2'']
   \<and> groupMovementToTurnType turnIndicatorItems ''17TH ST. W/B THRU'' False = [''TH'', ''TH2'']"
  by (simp add: getDirections_def directionIndicatorItems_def indicates_def wbIndicators_def
      ebIndicators_def nbIndicators_def sbIndicators_def groupMovementToTurnType_def
      turnIndicatorItems_def TURN_RIGHT_def TURN_THRU_def TURN_LEFT_def rightTurnIndicators_def
      thruTurnIndicators_def leftTurnIndicators_def)

section \<open>Results: command line\<close>

text \<open>
  C9 (as amended). The script prints the usage message and exits with code 2 exactly when
  fewer than 5 positional arguments are given (\<open>sys.argv\<close>, which counts the script's name,
  is shorter than 6), that is for 0 to 4 arguments; with 5 or more it does not exit at that
  check.
\<close>

theorem usage_exit_below_five_arguments:
  "(runScript scriptName positional = \<lparr>printed = [USAGE], exitCode = Some 2\<rparr>)
     = (length positional < 5)
   \<and> (runScript scriptName positional = \<lparr>printed = [], exitCode = None\<rparr>)
     = (5 \<le> length positional)"
  by (auto simp: runScript_def checkArguments_def)

text \<open>The claim as stated fails at five positional arguments: the script goes on.\<close>

theorem five_arguments_no_exit_counterexample:
  "length fiveArguments = 5 \<and> length fiveArguments < 6
   \<and> exitCode (runScript ''importExcelSignals.py'' fiveArguments) = None
   \<and> printed (runScript ''importExcelSignals.py'' fiveArguments) = []"
  by (simp add: runScript_def checkArguments_def fiveArguments_def)

section \<open>Results: filling the blanks of a row\<close>

lemma fillForward_append: "fillForward (xs @ ys) p = fillForward ys (fillForward xs p)"
  by (induction xs arbitrary: p) auto

text \<open>
  After the forward pass up to index \<open>n\<close>: the length is kept, the entries past \<open>n\<close> are
  untouched, and entry \<open>n\<close> is not blank if some entry up to \<open>n\<close> was not.
\<close>

lemma fillForward_inv:
  "Suc n \<le> length p \<Longrightarrow>
   length (fillForward [1 ..< Suc n] p) = length p
   \<and> (\<forall>j. Suc n \<le> j \<and> j < length p \<longrightarrow> fillForward [1 ..< Suc n] p ! j = p ! j)
   \<and> ((\<exists>i<Suc n. p ! i \<noteq> []) \<longrightarrow> fillForward [1 ..< Suc n] p ! n \<noteq> [])"
proof (induction n)
  case 0
  then show ?case by simp
next
  case (Suc n)
  let ?q = "fillForward [1 ..< Suc n] p"
  from Suc have ih: "length ?q = length p"
    "\<forall>j. Suc n \<le> j \<and> j < length p \<longrightarrow> ?q ! j = p ! j"
    "(\<exists>i<Suc n. p ! i \<noteq> []) \<longrightarrow> ?q ! n \<noteq> []" by auto
  have step: "fillForward [1 ..< Suc (Suc n)] p =
      (if ?q ! Suc n = [] \<and> ?q ! n \<noteq> [] then ?q[Suc n := ?q ! n] else ?q)"
    by (simp add: fillForward_append)
  have qs: "?q ! Suc n = p ! Suc n" using ih(2) Suc.prems by simp
  show ?case
  proof (intro conjI allI impI)
    show "length (fillForward [1 ..< Suc (Suc n)] p) = length p"
      unfolding step using ih(1) by simp
  next
    fix j assume "Suc (Suc n) \<le> j \<and> j < length p"
    then show "fillForward [1 ..< Suc (Suc n)] p ! j = p ! j"
      unfolding step using ih(2) by simp
  next
    assume "\<exists>i<Suc (Suc n). p ! i \<noteq> []"
    then have "(\<exists>i<Suc n. p ! i \<noteq> []) \<or> p ! Suc n \<noteq> []"
      using less_Suc_eq by auto
    then show "fillForward [1 ..< Suc (Suc n)] p ! Suc n \<noteq> []"
      unfolding step using ih(1,3) qs Suc.prems by auto
  qed
qed

lemma last_of_length: "length q = Suc n \<Longrightarrow> q ! n \<noteq> a \<Longrightarrow> q \<noteq> [] \<Longrightarrow> last q \<noteq> a"
  by (simp add: last_conv_nth)

lemma fillForward_last:
  assumes "\<exists>x\<in>set p. x \<noteq> []"
  shows "last (fillForward [1 ..< length p] p) \<noteq> []
         \<and> length (fillForward [1 ..< length p] p) = length p"
proof -
  from assms have ne: "p \<noteq> []" by auto
  then obtain n where n: "length p = Suc n" by (cases p) auto
  from assms obtain i where "i < length p" "p ! i \<noteq> []" by (auto simp: in_set_conv_nth)
  with fillForward_inv[of n p] n
  have "length (fillForward [1 ..< Suc n] p) = Suc n" "fillForward [1 ..< Suc n] p ! n \<noteq> []"
    by auto
  moreover have "fillForward [1 ..< Suc n] p \<noteq> []"
    using \<open>length (fillForward [1 ..< Suc n] p) = Suc n\<close> by auto
  ultimately have "last (fillForward [1 ..< Suc n] p) \<noteq> []"
    by (rule last_of_length)
  then show ?thesis using n \<open>length (fillForward [1 ..< Suc n] p) = Suc n\<close> by simp
qed

lemma fillBackward_in_range:
  "\<forall>i\<in>set is. Suc i < length p \<Longrightarrow> \<exists>q. fillBackward is p = Inr q"
  by (induction "is" arbitrary: p) auto

lemma fillBackward_last:
  assumes "p \<noteq> []" and "last p \<noteq> []"
  shows "\<exists>q. fillBackward (rev [0 ..< length p]) p = Inr q"
proof -
  from assms(1) obtain n where n: "length p = Suc n" by (cases p) auto
  have l: "p ! n \<noteq> []" using assms n by (simp add: last_conv_nth)
  have "\<exists>q. fillBackward (rev [0 ..< n]) p = Inr q"
    using n by (intro fillBackward_in_range) auto
  then show ?thesis using n l by simp
qed

lemma fillPhaseInfo_returns:
  assumes "\<exists>x\<in>set p. x \<noteq> []"
  shows "\<exists>q. fillPhaseInfo p = Inr q"
proof -
  let ?q = "fillForward [1 ..< length p] p"
  from fillForward_last[OF assms] have "last ?q \<noteq> []" "length ?q = length p" by auto
  moreover from assms have "p \<noteq> []" by auto
  ultimately have "\<exists>r. fillBackward (rev [0 ..< length ?q]) ?q = Inr r"
    by (intro fillBackward_last) auto
  then show ?thesis using \<open>length ?q = length p\<close> by (simp add: fillPhaseInfo_def)
qed

lemma readMovementRow_nonblank:
  assumes "readMovementRow l cs = Some r"
  shows "\<exists>x\<in>set r. x \<noteq> []"
proof (rule ccontr)
  assume "\<not> (\<exists>x\<in>set r. x \<noteq> [])"
  then have "replicate (length r) [] = r" by (intro replicate_length_same) auto
  with assms show False
    by (auto simp: readMovementRow_def split: if_splits option.splits)
qed

text \<open>The index error is in the model: a row of blanks only does raise it.\<close>

lemma fillPhaseInfo_all_blank_raises: "fillPhaseInfo [[], []] = Inl IndexError"
  by (simp add: fillPhaseInfo_def upt_rec)

text \<open>
  C10. \<open>fillPhaseInfo\<close> never indexes out of range on the rows it is applied to: for every
  list of cell strings with at least one non-blank entry the forward pass leaves the last
  element non-blank, so the backward pass does not read past the end and the function
  returns; and a row that \<open>getPhasingData\<close> keeps (all-blank rows are dropped there) has a
  non-blank entry.
\<close>

theorem fillPhaseInfo_in_range:
  "((\<exists>x\<in>set phaseInfo. x \<noteq> []) \<longrightarrow>
      last (fillForward [1 ..< length phaseInfo] phaseInfo) \<noteq> []
      \<and> (\<exists>filled. fillPhaseInfo phaseInfo = Inr filled))
   \<and> (readMovementRow groupMovement cellTexts = Some row \<longrightarrow>
      (\<exists>x\<in>set row. x \<noteq> []) \<and> (\<exists>filled. fillPhaseInfo row = Inr filled))"
  using fillForward_last[of phaseInfo] fillPhaseInfo_returns[of phaseInfo]
    readMovementRow_nonblank[of groupMovement cellTexts row] fillPhaseInfo_returns[of row]
  by blast

theorem fillPhaseInfo_in_range_witness:
  "(\<exists>x\<in>set sampleRow. x \<noteq> [])
   \<and> readMovementRow ''MAIN EB'' sampleRowTexts = Some sampleRow
   \<and> last (fillForward [1 ..< length sampleRow] sampleRow) \<noteq> []
   \<and> (\<exists>filled. fillPhaseInfo sampleRow = Inr filled)"
proof -
  have a: "\<exists>x\<in>set sampleRow. x \<noteq> []" by (simp add: sampleRow_def)
  have b: "readMovementRow ''MAIN EB'' sampleRowTexts = Some sampleRow"
    by (simp add: readMovementRow_def excludedMovement_def py_strip_def py_upper_def
        upperChar_def isSpace_def intervalStateGreen_def intervalStateYellow_def
        intervalStateRed_def sampleRowTexts_def sampleRow_def)
  from fillPhaseInfo_in_range[of sampleRow "''MAIN EB''" sampleRowTexts sampleRow] a b
  show ?thesis by blast
qed

lemma fillPhaseInfo_sampleRow:
  "fillPhaseInfo sampleRow = Inr [''G'', ''G'', ''G'', ''Y'', ''R'', ''R'', ''R'']"
  by (simp add: fillPhaseInfo_def sampleRow_def upt_rec)

end
